theory Spec2Isabelle
  imports Main
begin

section \<open>The transaction monitor of src/logic/safe/transactions/txMonitor.ts\<close>

text \<open>
  \<^verbatim>\<open>txMonitor\<close> arms a timer; when the timer fires, one round runs against the
  node (\<^verbatim>\<open>web3ReadOnly.eth\<close>) and either calls \<^verbatim>\<open>txMonitor\<close> again with new
  parameters, or calls \<^verbatim>\<open>cb\<close> and returns. The embedding keeps that shape: one
  function for the body of the timer callback, and one for the chain of rounds, fed with
  what the node answers in each round. The time between two rounds
  (\<^verbatim>\<open>options?.delay ?? 500\<close>) plays no part in what a round does and is left out.
\<close>

subsection \<open>Data\<close>

text \<open>
  \<^verbatim>\<open>TxMonitorProps\<close>, as declared in the source; the two optional fields are options.
\<close>

record TxMonitorProps =
  sender :: string
  hash :: string
  data :: string
  nonce :: "nat option"
  gasPrice :: "string option"

text \<open>
  The fields of a web3 \<^verbatim>\<open>Transaction\<close> that the monitor reads
  (\<^verbatim>\<open>hash\<close>, \<^verbatim>\<open>nonce\<close>, \<^verbatim>\<open>from\<close>, \<^verbatim>\<open>input\<close>, \<^verbatim>\<open>gasPrice\<close>), the block with its
  transactions in block order, and the receipt, which the monitor only hands over.
\<close>

record Transaction =
  tx_hash :: string
  tx_nonce :: nat
  tx_from :: string
  tx_input :: string
  tx_gasPrice :: string

record TransactionReceipt =
  transactionHash :: string
  blockNumber :: nat
  status :: bool

record Block =
  block_number :: nat
  transactions :: "Transaction list"

text \<open>
  What the node answers during one round: \<^verbatim>\<open>eth.getTransaction\<close> and
  \<^verbatim>\<open>eth.getTransactionReceipt\<close> resolve to \<^verbatim>\<open>null\<close> (\<open>None\<close>) or to a value,
  \<^verbatim>\<open>eth.getBlock('latest', true)\<close> to a block. Promises that reject are added
  further down (\<open>txRoundRpc\<close>).
\<close>

record Web3 =
  getTransaction :: "string \<Rightarrow> Transaction option"
  getTransactionReceipt :: "string \<Rightarrow> TransactionReceipt option"
  getBlockLatest :: Block

text \<open>
  The three helpers the source imports and whose code is not part of the two files at
  hand (\<^verbatim>\<open>sameAddress\<close>, \<^verbatim>\<open>sameString\<close>, \<^verbatim>\<open>web3ReadOnly.utils.toBN\<close>) are
  parameters. \<^verbatim>\<open>toBN\<close> yields a big integer: an unbounded \<open>int\<close>, compared by
  \<^verbatim>\<open>gt\<close> as \<open><\<close> compares integers.
\<close>

record helpers =
  sameAddress :: "string \<Rightarrow> string \<Rightarrow> bool"
  sameString :: "string \<Rightarrow> string \<Rightarrow> bool"
  toBN :: "string \<Rightarrow> int"

text \<open>
  What a round does besides scheduling the next one: the five \<^verbatim>\<open>console.info\<close>
  calls, each with the value it prints, and the call of \<^verbatim>\<open>cb\<close>.
\<close>

datatype effect =
    Info_transaction Transaction
  | Info_receipt "TransactionReceipt option"
  | Info_latestBlock Block
  | Info_replacementTransaction "Transaction option"
  | Info_transactionReceipt TransactionReceipt
  | Cb TransactionReceipt

subsection \<open>One round\<close>

text \<open>
  Lines 59 to 70: \<^verbatim>\<open>latestBlock.transactions.find(...)\<close>, the first transaction of
  the block, in block order, for which the five conjuncts hold, or \<^verbatim>\<open>undefined\<close>.
\<close>

definition replacementTransaction ::
  "helpers \<Rightarrow> string \<Rightarrow> string \<Rightarrow> string \<Rightarrow> nat \<Rightarrow> string \<Rightarrow> Transaction list \<Rightarrow> Transaction option"
where
  "replacementTransaction h sender' hash' data' nonce' gasPrice' txs =
     find (\<lambda>transaction.
             sameAddress h (tx_from transaction) sender' \<and>
             tx_nonce transaction = nonce' \<and>
             \<not> sameString h (tx_hash transaction) hash' \<and>
             sameString h (tx_input transaction) data' \<and>
             toBN h gasPrice' < toBN h (tx_gasPrice transaction))
          txs"

text \<open>
  Lines 38 to 95, the body of the timer callback. The result is what the round did
  (in the order of the calls) and the argument of the recursive call of
  \<^verbatim>\<open>txMonitor\<close>, \<open>None\<close> when the round returns without one.
  The receipt of line 52 is not awaited: its \<^verbatim>\<open>then\<close> prints it and nothing else
  reads it.
\<close>

definition txRound :: "helpers \<Rightarrow> Web3 \<Rightarrow> TxMonitorProps \<Rightarrow> effect list \<times> TxMonitorProps option" where
  "txRound h w p =
     (if nonce p = None \<or> gasPrice p = None then
        (case getTransaction w (hash p) of
           Some transaction \<Rightarrow>
             ([Info_transaction transaction],
              Some \<lparr>sender = sender p, hash = hash p, data = data p,
                    nonce = Some (tx_nonce transaction),
                    gasPrice = Some (tx_gasPrice transaction)\<rparr>)
         | None \<Rightarrow>
             ([], Some \<lparr>sender = sender p, hash = hash p, data = data p,
                        nonce = None, gasPrice = None\<rparr>))
      else
        (let receipt = getTransactionReceipt w (hash p);
             latestBlock = getBlockLatest w;
             found = replacementTransaction h (sender p) (hash p) (data p)
                       (the (nonce p)) (the (gasPrice p)) (transactions latestBlock);
             infos = [Info_receipt receipt, Info_latestBlock latestBlock,
                      Info_replacementTransaction found]
         in case found of
              Some t \<Rightarrow>
                (case getTransactionReceipt w (tx_hash t) of
                   None \<Rightarrow>
                     (infos,
                      Some \<lparr>sender = sender p, hash = tx_hash t, data = tx_input t,
                            nonce = nonce p, gasPrice = Some (tx_gasPrice t)\<rparr>)
                 | Some transactionReceipt \<Rightarrow>
                     (infos @ [Info_transactionReceipt transactionReceipt, Cb transactionReceipt],
                      None))
            | None \<Rightarrow>
                (infos,
                 Some \<lparr>sender = sender p, hash = hash p, data = data p,
                       nonce = nonce p, gasPrice = gasPrice p\<rparr>)))"

subsection \<open>The chain of rounds\<close>

text \<open>
  \<^verbatim>\<open>txMonitor\<close> over the rounds for which the node's answers are given, one \<open>Web3\<close>
  per round: each entry is the parameters the round ran with, what it did, and the
  parameters of the recursive call. A round that makes no recursive call ends the chain,
  whatever the node would answer later. The monitor has no bound on the number of
  rounds; the list is the part of an unbounded session that has been observed.
\<close>

fun txMonitor ::
  "helpers \<Rightarrow> Web3 list \<Rightarrow> TxMonitorProps \<Rightarrow> (TxMonitorProps \<times> effect list \<times> TxMonitorProps option) list"
where
  "txMonitor h [] p = []"
| "txMonitor h (w # ws) p =
     (case txRound h w p of
        (es, None) \<Rightarrow> [(p, es, None)]
      | (es, Some p') \<Rightarrow> (p, es, Some p') # txMonitor h ws p')"

text \<open>The receipts \<^verbatim>\<open>cb\<close> was called with, in order.\<close>

fun callbacks :: "effect list \<Rightarrow> TransactionReceipt list" where
  "callbacks [] = []"
| "callbacks (Cb r # es) = r # callbacks es"
| "callbacks (e # es) = callbacks es"

text \<open>
  The replacement transactions a session found, in order: the values of
  \<^verbatim>\<open>console.info({ replacementTransaction })\<close> that are not \<^verbatim>\<open>undefined\<close>.
\<close>

fun replacements :: "effect list \<Rightarrow> Transaction list" where
  "replacements [] = []"
| "replacements (Info_replacementTransaction (Some t) # es) = t # replacements es"
| "replacements (e # es) = replacements es"

text \<open>Everything a session did, round after round.\<close>

definition effects :: "(TxMonitorProps \<times> effect list \<times> TxMonitorProps option) list \<Rightarrow> effect list" where
  "effects rounds = concat (map (\<lambda>r. fst (snd r)) rounds)"

subsection \<open>Calls that fail\<close>

text \<open>
  A call to the node may also fail: its promise rejects. The answers of the node are
  then \<open>Rejected\<close> or \<open>Resolved\<close> with the value, \<^verbatim>\<open>null\<close> being
  \<open>Resolved None\<close>.
\<close>

datatype 'a rpc = Rejected | Resolved 'a

record Web3Rpc =
  rpc_getTransaction :: "string \<Rightarrow> Transaction option rpc"
  rpc_getTransactionReceipt :: "string \<Rightarrow> TransactionReceipt option rpc"
  rpc_getBlockLatest :: "Block rpc"

text \<open>
  The body of the timer callback with such a node. A rejected call that is awaited
  (lines 41, 56 and 74) ends the callback there: nothing after it runs, so there is no
  \<^verbatim>\<open>cb\<close> and no recursive call. Nothing catches the rejection, and the caller of
  \<^verbatim>\<open>txMonitor\<close> is not told: its promise was fulfilled when the timer was armed.
  The call of line 52 is not awaited: when it rejects nothing is printed and the round
  goes on.
\<close>

definition txRoundRpc :: "helpers \<Rightarrow> Web3Rpc \<Rightarrow> TxMonitorProps \<Rightarrow> effect list \<times> TxMonitorProps option" where
  "txRoundRpc h w p =
     (if nonce p = None \<or> gasPrice p = None then
        (case rpc_getTransaction w (hash p) of
           Rejected \<Rightarrow> ([], None)
         | Resolved (Some transaction) \<Rightarrow>
             ([Info_transaction transaction],
              Some \<lparr>sender = sender p, hash = hash p, data = data p,
                    nonce = Some (tx_nonce transaction),
                    gasPrice = Some (tx_gasPrice transaction)\<rparr>)
         | Resolved None \<Rightarrow>
             ([], Some \<lparr>sender = sender p, hash = hash p, data = data p,
                        nonce = None, gasPrice = None\<rparr>))
      else
        (let printed = (case rpc_getTransactionReceipt w (hash p) of
                          Rejected \<Rightarrow> []
                        | Resolved receipt \<Rightarrow> [Info_receipt receipt])
         in case rpc_getBlockLatest w of
              Rejected \<Rightarrow> (printed, None)
            | Resolved latestBlock \<Rightarrow>
                (let found = replacementTransaction h (sender p) (hash p) (data p)
                               (the (nonce p)) (the (gasPrice p)) (transactions latestBlock);
                     infos = printed @ [Info_latestBlock latestBlock,
                                        Info_replacementTransaction found]
                 in case found of
                      Some t \<Rightarrow>
                        (case rpc_getTransactionReceipt w (tx_hash t) of
                           Rejected \<Rightarrow> (infos, None)
                         | Resolved None \<Rightarrow>
                             (infos,
                              Some \<lparr>sender = sender p, hash = tx_hash t, data = tx_input t,
                                    nonce = nonce p, gasPrice = Some (tx_gasPrice t)\<rparr>)
                         | Resolved (Some transactionReceipt) \<Rightarrow>
                             (infos @ [Info_transactionReceipt transactionReceipt,
                                       Cb transactionReceipt],
                              None))
                    | None \<Rightarrow>
                        (infos,
                         Some \<lparr>sender = sender p, hash = hash p, data = data p,
                               nonce = nonce p, gasPrice = gasPrice p\<rparr>))))"

fun txMonitorRpc ::
  "helpers \<Rightarrow> Web3Rpc list \<Rightarrow> TxMonitorProps \<Rightarrow> (TxMonitorProps \<times> effect list \<times> TxMonitorProps option) list"
where
  "txMonitorRpc h [] p = []"
| "txMonitorRpc h (w # ws) p =
     (case txRoundRpc h w p of
        (es, None) \<Rightarrow> [(p, es, None)]
      | (es, Some p') \<Rightarrow> (p, es, Some p') # txMonitorRpc h ws p')"

text \<open>A node all of whose calls succeed.\<close>

definition resolved :: "Web3 \<Rightarrow> Web3Rpc" where
  "resolved w = \<lparr>rpc_getTransaction = (\<lambda>x. Resolved (getTransaction w x)),
                 rpc_getTransactionReceipt = (\<lambda>x. Resolved (getTransactionReceipt w x)),
                 rpc_getBlockLatest = Resolved (getBlockLatest w)\<rparr>"

subsection \<open>Fee strings\<close>

text \<open>
  The node gives \<^verbatim>\<open>gasPrice\<close> as a string of decimal digits (an amount of wei).
  \<open>decimal\<close> writes a natural number that way, and \<open>decimalBN\<close> reads such a string as
  the integer it denotes, which is what \<^verbatim>\<open>toBN\<close> does with it.
  \<open>digit_char\<close> is applied to the digits 0 to 9 only.
\<close>

definition digit_char :: "nat \<Rightarrow> char" where
  "digit_char d = ''0123456789'' ! d"

definition digit_of :: "char \<Rightarrow> int" where
  "digit_of c = of_char c - 48"

function decimal :: "nat \<Rightarrow> string" where
  "decimal n = (if n < 10 then [digit_char n] else decimal (n div 10) @ [digit_char (n mod 10)])"
  by pat_completeness auto
termination
  by (relation "measure (\<lambda>n. n)") auto

declare decimal.simps [simp del]

definition decimalBN :: "string \<Rightarrow> int" where
  "decimalBN s = foldl (\<lambda>acc c. 10 * acc + digit_of c) 0 s"

subsection \<open>A session to run\<close>

text \<open>
  The scenario of the specification's testable properties: sender \<^verbatim>\<open>0xA\<close>, original
  hash \<^verbatim>\<open>h1\<close> with nonce 5 and fee 10, and a speed-up \<^verbatim>\<open>h2\<close> with fee 20 and the same
  calldata. The helpers compare strings as they are and read fees as decimal numbers.
\<close>

definition plainHelpers :: helpers where
  "plainHelpers = \<lparr>sameAddress = (\<lambda>a b. a = b), sameString = (\<lambda>a b. a = b), toBN = decimalBN\<rparr>"

definition tx1 :: Transaction where
  "tx1 = \<lparr>tx_hash = ''h1'', tx_nonce = 5, tx_from = ''0xA'', tx_input = ''0xd'', tx_gasPrice = ''10''\<rparr>"

definition tx2 :: Transaction where
  "tx2 = \<lparr>tx_hash = ''h2'', tx_nonce = 5, tx_from = ''0xA'', tx_input = ''0xd'', tx_gasPrice = ''20''\<rparr>"

definition tx3 :: Transaction where
  "tx3 = \<lparr>tx_hash = ''h3'', tx_nonce = 5, tx_from = ''0xA'', tx_input = ''0xd'', tx_gasPrice = ''30''\<rparr>"

text \<open>
  Two more transactions with nonce 5: one of another sender, and one of the same sender
  with other calldata (a cancellation).
\<close>

definition txStale :: Transaction where
  "txStale = \<lparr>tx_hash = ''h9'', tx_nonce = 5, tx_from = ''0xB'', tx_input = ''0xd'', tx_gasPrice = ''50''\<rparr>"

definition txCancel :: Transaction where
  "txCancel = \<lparr>tx_hash = ''h8'', tx_nonce = 5, tx_from = ''0xA'', tx_input = ''0x'', tx_gasPrice = ''40''\<rparr>"

definition receipt1 :: TransactionReceipt where
  "receipt1 = \<lparr>transactionHash = ''h1'', blockNumber = 7, status = True\<rparr>"

definition receipt2 :: TransactionReceipt where
  "receipt2 = \<lparr>transactionHash = ''h2'', blockNumber = 7, status = True\<rparr>"

definition intent1 :: TxMonitorProps where
  "intent1 = \<lparr>sender = ''0xA'', hash = ''h1'', data = ''0xd'', nonce = None, gasPrice = None\<rparr>"

text \<open>Calls that supply only one of nonce and gasPrice.\<close>

definition intentNonceOnly :: TxMonitorProps where
  "intentNonceOnly = \<lparr>sender = ''0xA'', hash = ''h1'', data = ''0xd'', nonce = Some 9, gasPrice = None\<rparr>"

definition intentFeeOnly :: TxMonitorProps where
  "intentFeeOnly = \<lparr>sender = ''0xA'', hash = ''h1'', data = ''0xd'', nonce = None, gasPrice = Some ''99''\<rparr>"

definition tracking1 :: TxMonitorProps where
  "tracking1 = \<lparr>sender = ''0xA'', hash = ''h1'', data = ''0xd'', nonce = Some 5, gasPrice = Some ''10''\<rparr>"

definition tracking2 :: TxMonitorProps where
  "tracking2 = \<lparr>sender = ''0xA'', hash = ''h2'', data = ''0xd'', nonce = Some 5, gasPrice = Some ''20''\<rparr>"

definition tracking3 :: TxMonitorProps where
  "tracking3 = \<lparr>sender = ''0xA'', hash = ''h3'', data = ''0xd'', nonce = Some 5, gasPrice = Some ''30''\<rparr>"

text \<open>
  Four states of the node: the original transaction not indexed yet; indexed and
  pending, the latest block empty; the speed-up in the latest block, its receipt not
  served yet; the speed-up in the latest block with its receipt.
\<close>

definition nodeEmpty :: Web3 where
  "nodeEmpty = \<lparr>getTransaction = (\<lambda>x. None), getTransactionReceipt = (\<lambda>x. None),
                 getBlockLatest = \<lparr>block_number = 6, transactions = []\<rparr>\<rparr>"

definition nodePending :: Web3 where
  "nodePending = \<lparr>getTransaction = (\<lambda>x. if x = ''h1'' then Some tx1 else None),
                   getTransactionReceipt = (\<lambda>x. None),
                   getBlockLatest = \<lparr>block_number = 6, transactions = []\<rparr>\<rparr>"

definition nodeSpeedUpSeen :: Web3 where
  "nodeSpeedUpSeen = \<lparr>getTransaction = (\<lambda>x. if x = ''h1'' then Some tx1 else if x = ''h2'' then Some tx2 else None),
                       getTransactionReceipt = (\<lambda>x. None),
                       getBlockLatest = \<lparr>block_number = 7, transactions = [tx2]\<rparr>\<rparr>"

definition nodeSpeedUpMined :: Web3 where
  "nodeSpeedUpMined = \<lparr>getTransaction = (\<lambda>x. if x = ''h1'' then Some tx1 else if x = ''h2'' then Some tx2 else None),
                        getTransactionReceipt = (\<lambda>x. if x = ''h2'' then Some receipt2 else None),
                        getBlockLatest = \<lparr>block_number = 7, transactions = [tx2]\<rparr>\<rparr>"

text \<open>A second speed-up \<^verbatim>\<open>h3\<close> with fee 30 in the latest block, its receipt not served yet.\<close>

definition nodeSecondSpeedUp :: Web3 where
  "nodeSecondSpeedUp = \<lparr>getTransaction = (\<lambda>x. if x = ''h1'' then Some tx1 else if x = ''h2'' then Some tx2
                                             else if x = ''h3'' then Some tx3 else None),
                         getTransactionReceipt = (\<lambda>x. None),
                         getBlockLatest = \<lparr>block_number = 8, transactions = [tx3]\<rparr>\<rparr>"

text \<open>
  Latest blocks with several transactions of nonce 5: two speed-ups; the transaction of
  another sender and the cancellation before the speed-up; those two alone.
\<close>

definition nodeTwoSpeedUps :: Web3 where
  "nodeTwoSpeedUps = \<lparr>getTransaction = (\<lambda>x. if x = ''h1'' then Some tx1 else if x = ''h2'' then Some tx2
                                           else if x = ''h3'' then Some tx3 else None),
                       getTransactionReceipt = (\<lambda>x. None),
                       getBlockLatest = \<lparr>block_number = 7, transactions = [tx2, tx3]\<rparr>\<rparr>"

definition nodeOthersThenSpeedUp :: Web3 where
  "nodeOthersThenSpeedUp = \<lparr>getTransaction = (\<lambda>x. if x = ''h1'' then Some tx1 else None),
                             getTransactionReceipt = (\<lambda>x. None),
                             getBlockLatest = \<lparr>block_number = 7, transactions = [txStale, txCancel, tx2]\<rparr>\<rparr>"

definition nodeOthersOnly :: Web3 where
  "nodeOthersOnly = \<lparr>getTransaction = (\<lambda>x. if x = ''h1'' then Some tx1 else None),
                      getTransactionReceipt = (\<lambda>x. None),
                      getBlockLatest = \<lparr>block_number = 7, transactions = [txStale, txCancel]\<rparr>\<rparr>"

text \<open>
  A node every call of which is rejected, and one that serves the latest block with the
  speed-up and rejects the lookups.
\<close>

definition nodeDown :: Web3Rpc where
  "nodeDown = \<lparr>rpc_getTransaction = (\<lambda>x. Rejected), rpc_getTransactionReceipt = (\<lambda>x. Rejected),
                rpc_getBlockLatest = Rejected\<rparr>"

definition nodeReceiptsDown :: Web3Rpc where
  "nodeReceiptsDown = \<lparr>rpc_getTransaction = (\<lambda>x. Rejected), rpc_getTransactionReceipt = (\<lambda>x. Rejected),
                        rpc_getBlockLatest = Resolved \<lparr>block_number = 7, transactions = [tx2]\<rparr>\<rparr>"

text \<open>The original transaction mined and never replaced: it is in the latest block and has its receipt.\<close>

definition nodeOriginalMined :: Web3 where
  "nodeOriginalMined = \<lparr>getTransaction = (\<lambda>x. if x = ''h1'' then Some tx1 else None),
                         getTransactionReceipt = (\<lambda>x. if x = ''h1'' then Some receipt1 else None),
                         getBlockLatest = \<lparr>block_number = 7, transactions = [tx1]\<rparr>\<rparr>"

section \<open>Properties\<close>

subsection \<open>The five ways a round can go\<close>

lemma txRound_not_indexed:
  assumes "nonce p = None \<or> gasPrice p = None" and "getTransaction w (hash p) = None"
  shows "txRound h w p =
           ([], Some \<lparr>sender = sender p, hash = hash p, data = data p, nonce = None, gasPrice = None\<rparr>)"
  using assms by (auto simp: txRound_def)

lemma txRound_indexed:
  assumes "nonce p = None \<or> gasPrice p = None" and "getTransaction w (hash p) = Some t"
  shows "txRound h w p =
           ([Info_transaction t],
            Some \<lparr>sender = sender p, hash = hash p, data = data p,
                  nonce = Some (tx_nonce t), gasPrice = Some (tx_gasPrice t)\<rparr>)"
  using assms by (auto simp: txRound_def)

lemma txRound_no_candidate:
  assumes "nonce p = Some n" and "gasPrice p = Some g"
    and "replacementTransaction h (sender p) (hash p) (data p) n g (transactions (getBlockLatest w)) = None"
  shows "txRound h w p =
           ([Info_receipt (getTransactionReceipt w (hash p)), Info_latestBlock (getBlockLatest w),
             Info_replacementTransaction None], Some p)"
  using assms by (simp add: txRound_def)

lemma txRound_candidate_pending:
  assumes "nonce p = Some n" and "gasPrice p = Some g"
    and "replacementTransaction h (sender p) (hash p) (data p) n g (transactions (getBlockLatest w)) = Some t"
    and "getTransactionReceipt w (tx_hash t) = None"
  shows "txRound h w p =
           ([Info_receipt (getTransactionReceipt w (hash p)), Info_latestBlock (getBlockLatest w),
             Info_replacementTransaction (Some t)],
            Some \<lparr>sender = sender p, hash = tx_hash t, data = tx_input t,
                  nonce = Some n, gasPrice = Some (tx_gasPrice t)\<rparr>)"
  using assms by (simp add: txRound_def)

lemma txRound_candidate_mined:
  assumes "nonce p = Some n" and "gasPrice p = Some g"
    and "replacementTransaction h (sender p) (hash p) (data p) n g (transactions (getBlockLatest w)) = Some t"
    and "getTransactionReceipt w (tx_hash t) = Some r"
  shows "txRound h w p =
           ([Info_receipt (getTransactionReceipt w (hash p)), Info_latestBlock (getBlockLatest w),
             Info_replacementTransaction (Some t), Info_transactionReceipt r, Cb r], None)"
  using assms by (simp add: txRound_def)

text \<open>Every round goes one of these ways.\<close>

lemma txRound_cases:
  obtains
    (not_indexed) "nonce p = None \<or> gasPrice p = None" "getTransaction w (hash p) = None"
  | (indexed) t where "nonce p = None \<or> gasPrice p = None" "getTransaction w (hash p) = Some t"
  | (no_candidate) n g where "nonce p = Some n" "gasPrice p = Some g"
      "replacementTransaction h (sender p) (hash p) (data p) n g (transactions (getBlockLatest w)) = None"
  | (pending) n g t where "nonce p = Some n" "gasPrice p = Some g"
      "replacementTransaction h (sender p) (hash p) (data p) n g (transactions (getBlockLatest w)) = Some t"
      "getTransactionReceipt w (tx_hash t) = None"
  | (mined) n g t r where "nonce p = Some n" "gasPrice p = Some g"
      "replacementTransaction h (sender p) (hash p) (data p) n g (transactions (getBlockLatest w)) = Some t"
      "getTransactionReceipt w (tx_hash t) = Some r"
proof (cases "nonce p = None \<or> gasPrice p = None")
  case True
  then show ?thesis
    using not_indexed indexed by (cases "getTransaction w (hash p)") auto
next
  case False
  then obtain n g where ng: "nonce p = Some n" "gasPrice p = Some g" by auto
  show ?thesis
  proof (cases "replacementTransaction h (sender p) (hash p) (data p) n g (transactions (getBlockLatest w))")
    case None
    with ng show ?thesis using no_candidate by blast
  next
    case (Some t)
    with ng show ?thesis
      using pending mined by (cases "getTransactionReceipt w (tx_hash t)") auto
  qed
qed

subsection \<open>Callbacks of a round and of a session\<close>

lemma callbacks_append: "callbacks (xs @ ys) = callbacks xs @ callbacks ys"
  by (induction xs rule: callbacks.induct) simp_all

lemma txRound_callbacks_le: "length (callbacks (fst (txRound h w p))) \<le> 1"
  by (cases rule: txRound_cases [where p = p and w = w and h = h])
     (simp_all add: txRound_not_indexed txRound_indexed txRound_no_candidate
        txRound_candidate_pending txRound_candidate_mined)

lemma txRound_callbacks_stop:
  "snd (txRound h w p) \<noteq> None \<Longrightarrow> callbacks (fst (txRound h w p)) = []"
  by (cases rule: txRound_cases [where p = p and w = w and h = h])
     (simp_all add: txRound_not_indexed txRound_indexed txRound_no_candidate
        txRound_candidate_pending txRound_candidate_mined)

lemma effects_Nil: "effects [] = []"
  by (simp add: effects_def)

lemma effects_Cons: "effects (r # rs) = fst (snd r) @ effects rs"
  by (simp add: effects_def)

lemma txMonitor_Cons:
  "txMonitor h (w # ws) p =
     (p, fst (txRound h w p), snd (txRound h w p)) #
     (case snd (txRound h w p) of None \<Rightarrow> [] | Some p' \<Rightarrow> txMonitor h ws p')"
  by (cases "txRound h w p") (simp split: option.splits)

declare txMonitor.simps(2) [simp del]

lemma txMonitor_callbacks_le: "length (callbacks (effects (txMonitor h ws p))) \<le> 1"
proof (induction ws arbitrary: p)
  case Nil
  show ?case by (simp add: effects_Nil)
next
  case (Cons w ws)
  show ?case
  proof (cases "snd (txRound h w p)")
    case None
    then show ?thesis
      using txRound_callbacks_le [of h w p]
      by (simp add: txMonitor_Cons effects_Cons effects_Nil)
  next
    case (Some p')
    then have "callbacks (fst (txRound h w p)) = []"
      using txRound_callbacks_stop [of h w p] by simp
    with Some Cons.IH [of p'] show ?thesis
      by (simp add: txMonitor_Cons effects_Cons callbacks_append)
  qed
qed

lemma txMonitor_entries:
  "(q, es, nx) \<in> set (txMonitor h ws p) \<Longrightarrow> \<exists>w \<in> set ws. txRound h w q = (es, nx)"
proof (induction ws arbitrary: p)
  case Nil
  then show ?case by simp
next
  case (Cons w ws)
  show ?case
  proof (cases "snd (txRound h w p)")
    case None
    with Cons.prems have "(q, es, nx) = (p, fst (txRound h w p), snd (txRound h w p))"
      by (simp add: txMonitor_Cons)
    then show ?thesis by (simp add: prod_eq_iff)
  next
    case (Some p')
    with Cons.prems
    consider "(q, es, nx) = (p, fst (txRound h w p), snd (txRound h w p))"
      | "(q, es, nx) \<in> set (txMonitor h ws p')"
      by (auto simp: txMonitor_Cons)
    then show ?thesis
    proof cases
      case 1
      then show ?thesis by (simp add: prod_eq_iff)
    next
      case 2
      then show ?thesis using Cons.IH [of p'] by auto
    qed
  qed
qed

lemma txMonitor_None_last:
  "i < length (txMonitor h ws p) \<Longrightarrow> snd (snd (txMonitor h ws p ! i)) = None
     \<Longrightarrow> Suc i = length (txMonitor h ws p)"
proof (induction ws arbitrary: p i)
  case Nil
  then show ?case by simp
next
  case (Cons w ws)
  show ?case
  proof (cases "snd (txRound h w p)")
    case None
    with Cons.prems show ?thesis by (simp add: txMonitor_Cons)
  next
    case (Some p')
    show ?thesis
    proof (cases i)
      case 0
      with Cons.prems Some show ?thesis by (simp add: txMonitor_Cons)
    next
      case (Suc j)
      with Cons.prems Some have "j < length (txMonitor h ws p')"
        and "snd (snd (txMonitor h ws p' ! j)) = None"
        by (simp_all add: txMonitor_Cons)
      then have "Suc j = length (txMonitor h ws p')" by (rule Cons.IH)
      with Some Suc show ?thesis by (simp add: txMonitor_Cons)
    qed
  qed
qed

lemma txRound_callbacks_only_mined:
  assumes "callbacks (fst (txRound h w q)) \<noteq> []"
  shows "\<exists>n g t r. nonce q = Some n \<and> gasPrice q = Some g \<and>
           replacementTransaction h (sender q) (hash q) (data q) n g
             (transactions (getBlockLatest w)) = Some t \<and>
           getTransactionReceipt w (tx_hash t) = Some r \<and>
           callbacks (fst (txRound h w q)) = [r] \<and> snd (txRound h w q) = None"
  using assms
  by (cases rule: txRound_cases [where p = q and w = w and h = h])
     (simp_all add: txRound_not_indexed txRound_indexed txRound_no_candidate
        txRound_candidate_pending txRound_candidate_mined)

subsection \<open>The rounds of the scenario\<close>

lemma round_nodeEmpty: "txRound plainHelpers nodeEmpty intent1 = ([], Some intent1)"
  by (simp add: txRound_def nodeEmpty_def intent1_def)

lemma round_nodePending:
  "txRound plainHelpers nodePending intent1 = ([Info_transaction tx1], Some tracking1)"
  by (simp add: txRound_def nodePending_def intent1_def tracking1_def tx1_def)

lemma candidate_tx2:
  "replacementTransaction plainHelpers ''0xA'' ''h1'' ''0xd'' 5 ''10'' [tx2] = Some tx2"
  by (simp add: replacementTransaction_def plainHelpers_def tx2_def decimalBN_def digit_of_def)

lemma round_nodeSpeedUpSeen:
  "txRound plainHelpers nodeSpeedUpSeen tracking1 =
     ([Info_receipt None, Info_latestBlock \<lparr>block_number = 7, transactions = [tx2]\<rparr>,
       Info_replacementTransaction (Some tx2)], Some tracking2)"
  by (simp add: txRound_def nodeSpeedUpSeen_def tracking1_def tracking2_def candidate_tx2)
     (simp add: tx2_def)

lemma round_nodeSpeedUpMined:
  "txRound plainHelpers nodeSpeedUpMined tracking1 =
     ([Info_receipt None, Info_latestBlock \<lparr>block_number = 7, transactions = [tx2]\<rparr>,
       Info_replacementTransaction (Some tx2), Info_transactionReceipt receipt2, Cb receipt2], None)"
  by (simp add: txRound_def nodeSpeedUpMined_def tracking1_def candidate_tx2)
     (simp add: tx2_def)

lemma session_speed_up_mined:
  "txMonitor plainHelpers [nodeEmpty, nodePending, nodeSpeedUpMined, nodeSpeedUpMined] intent1 =
     [(intent1, [], Some intent1),
      (intent1, [Info_transaction tx1], Some tracking1),
      (tracking1,
       [Info_receipt None, Info_latestBlock \<lparr>block_number = 7, transactions = [tx2]\<rparr>,
        Info_replacementTransaction (Some tx2), Info_transactionReceipt receipt2, Cb receipt2],
       None)]"
  by (simp add: txMonitor_Cons round_nodeEmpty round_nodePending round_nodeSpeedUpMined)

subsection \<open>Reading a fee written in decimal\<close>

lemma digit_roundtrip:
  assumes "d < 10"
  shows "digit_of (digit_char d) = int d"
proof -
  from assms have "d \<in> {0, 1, 2, 3, 4, 5, 6, 7, 8, 9}" by auto
  then show ?thesis
    by (auto simp: digit_of_def digit_char_def)
qed

lemma foldl_decimal:
  "foldl (\<lambda>acc c. 10 * acc + digit_of c) a (decimal n) = a * 10 ^ length (decimal n) + int n"
proof (induction n arbitrary: a rule: decimal.induct)
  case (1 n)
  show ?case
  proof (cases "n < 10")
    case True
    then show ?thesis by (simp add: decimal.simps [of n] digit_roundtrip)
  next
    case False
    then have "foldl (\<lambda>acc c. 10 * acc + digit_of c) a (decimal n) =
        10 * foldl (\<lambda>acc c. 10 * acc + digit_of c) a (decimal (n div 10)) + digit_of (digit_char (n mod 10))"
      by (simp add: decimal.simps [of n])
    also have "\<dots> = 10 * (a * 10 ^ length (decimal (n div 10)) + int (n div 10)) + int (n mod 10)"
      using False "1.IH" [of a] by (simp add: digit_roundtrip)
    also have "\<dots> = a * 10 ^ length (decimal n) + int n"
    proof -
      have "length (decimal n) = Suc (length (decimal (n div 10)))"
        using False by (simp add: decimal.simps [of n])
      moreover have "int n = 10 * int (n div 10) + int (n mod 10)"
        by presburger
      ultimately show ?thesis by (simp add: algebra_simps)
    qed
    finally show ?thesis .
  qed
qed

lemma decimalBN_decimal: "decimalBN (decimal n) = int n"
  by (simp add: decimalBN_def foldl_decimal)

subsection \<open>The search for a replacement\<close>

lemma replacementTransaction_Some:
  assumes "replacementTransaction h s x d n g txs = Some t"
  shows "t \<in> set txs" and "sameAddress h (tx_from t) s" and "tx_nonce t = n"
    and "\<not> sameString h (tx_hash t) x" and "sameString h (tx_input t) d"
    and "toBN h g < toBN h (tx_gasPrice t)"
  using assms unfolding replacementTransaction_def find_Some_iff by auto

lemma replacementTransaction_None:
  "replacementTransaction h s x d n g txs = None \<longleftrightarrow>
     \<not> (\<exists>u \<in> set txs. sameAddress h (tx_from u) s \<and> tx_nonce u = n \<and>
            \<not> sameString h (tx_hash u) x \<and> sameString h (tx_input u) d \<and>
            toBN h g < toBN h (tx_gasPrice u))"
  unfolding replacementTransaction_def find_None_iff by auto

lemma plain_same [simp]:
  "sameAddress plainHelpers a b = (a = b)" "sameString plainHelpers a b = (a = b)"
  "toBN plainHelpers = decimalBN"
  by (simp_all add: plainHelpers_def)

lemma decimalBN_values:
  "decimalBN ''10'' = 10" "decimalBN ''20'' = 20" "decimalBN ''30'' = 30"
  "decimalBN ''40'' = 40" "decimalBN ''50'' = 50"
  by (simp_all add: decimalBN_def digit_of_def)

subsection \<open>Rounds with nonce and gasPrice known\<close>

lemma replacements_append: "replacements (xs @ ys) = replacements xs @ replacements ys"
  by (induction xs rule: replacements.induct) simp_all

lemma txRound_polling_step:
  assumes "nonce p = Some n" and "gasPrice p = Some g" and "snd (txRound h w p) = Some p'"
  shows "p' = p \<or>
         (\<exists>t. replacementTransaction h (sender p) (hash p) (data p) n g
                 (transactions (getBlockLatest w)) = Some t \<and>
              getTransactionReceipt w (tx_hash t) = None \<and>
              p' = \<lparr>sender = sender p, hash = tx_hash t, data = tx_input t,
                    nonce = Some n, gasPrice = Some (tx_gasPrice t)\<rparr> \<and>
              toBN h g < toBN h (tx_gasPrice t))"
proof (cases "replacementTransaction h (sender p) (hash p) (data p) n g
                (transactions (getBlockLatest w))")
  case None
  from txRound_no_candidate [OF assms(1,2) None] assms(3) show ?thesis by simp
next
  case (Some t)
  show ?thesis
  proof (cases "getTransactionReceipt w (tx_hash t)")
    case None
    from Some have "toBN h g < toBN h (tx_gasPrice t)"
      by (rule replacementTransaction_Some)
    with txRound_candidate_pending [OF assms(1,2) Some None] assms(3) Some None
    show ?thesis by simp
  next
    case (Some r)
    from txRound_candidate_mined [OF assms(1,2) \<open>replacementTransaction h (sender p) (hash p) (data p) n g
                (transactions (getBlockLatest w)) = Some t\<close> Some] assms(3)
    show ?thesis by simp
  qed
qed

lemma txRound_polling_next:
  assumes "nonce p = Some n" and "gasPrice p = Some g" and "snd (txRound h w p) = Some p'"
  shows "sender p' = sender p \<and> nonce p' = Some n \<and>
         (\<exists>g'. gasPrice p' = Some g' \<and> toBN h g \<le> toBN h g')"
  using txRound_polling_step [OF assms]
proof (elim disjE exE conjE)
  assume "p' = p"
  with assms(1,2) show ?thesis by simp
next
  fix t
  assume "p' = \<lparr>sender = sender p, hash = tx_hash t, data = tx_input t,
                    nonce = Some n, gasPrice = Some (tx_gasPrice t)\<rparr>"
    and "toBN h g < toBN h (tx_gasPrice t)"
  then show ?thesis by simp
qed

lemma txMonitor_polling_invariant:
  assumes "nonce p = Some n" and "gasPrice p = Some g"
  shows "\<forall>q \<in> set (map fst (txMonitor h ws p)).
           sender q = sender p \<and> nonce q = Some n \<and>
           (\<exists>g'. gasPrice q = Some g' \<and> toBN h g \<le> toBN h g')"
  using assms
proof (induction ws arbitrary: p g)
  case Nil
  show ?case by simp
next
  case (Cons w ws)
  show ?case
  proof (cases "snd (txRound h w p)")
    case None
    with Cons.prems show ?thesis by (simp add: txMonitor_Cons)
  next
    case (Some p')
    from txRound_polling_next [OF Cons.prems Some]
    obtain g' where p': "sender p' = sender p" "nonce p' = Some n" "gasPrice p' = Some g'"
      "toBN h g \<le> toBN h g'" by (elim conjE exE)
    have "\<forall>q \<in> set (map fst (txMonitor h ws p')).
           sender q = sender p \<and> nonce q = Some n \<and>
           (\<exists>g''. gasPrice q = Some g'' \<and> toBN h g \<le> toBN h g'')"
    proof
      fix q assume "q \<in> set (map fst (txMonitor h ws p'))"
      with Cons.IH [OF p'(2,3)]
      obtain g'' where "sender q = sender p'" "nonce q = Some n" "gasPrice q = Some g''"
        "toBN h g' \<le> toBN h g''" by blast
      with p'(1,4) show "sender q = sender p \<and> nonce q = Some n \<and>
           (\<exists>g''. gasPrice q = Some g'' \<and> toBN h g \<le> toBN h g'')" by simp
    qed
    moreover have "sender p = sender p \<and> nonce p = Some n \<and>
           (\<exists>g'. gasPrice p = Some g' \<and> toBN h g \<le> toBN h g')"
      using Cons.prems by simp
    ultimately show ?thesis
      using Some by (simp add: txMonitor_Cons)
  qed
qed

lemma effects_txMonitor_Cons:
  "effects (txMonitor h (w # ws) p) =
     fst (txRound h w p) @
     (case snd (txRound h w p) of None \<Rightarrow> [] | Some p' \<Rightarrow> effects (txMonitor h ws p'))"
  by (simp add: txMonitor_Cons effects_Cons effects_Nil split: option.splits)

lemma txMonitor_replacements_increasing:
  "sorted_wrt (\<lambda>a b. toBN h (tx_gasPrice a) < toBN h (tx_gasPrice b))
     (replacements (effects (txMonitor h ws p))) \<and>
   (\<forall>n g. nonce p = Some n \<and> gasPrice p = Some g \<longrightarrow>
      (\<forall>t \<in> set (replacements (effects (txMonitor h ws p))).
         toBN h g < toBN h (tx_gasPrice t)))"
proof (induction ws arbitrary: p)
  case Nil
  show ?case by (simp add: effects_Nil)
next
  case (Cons w ws)
  show ?case
  proof (cases rule: txRound_cases [where p = p and w = w and h = h])
    case not_indexed
    let ?p' = "\<lparr>sender = sender p, hash = hash p, data = data p, nonce = None, gasPrice = None\<rparr>"
    have "replacements (effects (txMonitor h (w # ws) p)) =
            replacements (effects (txMonitor h ws ?p'))"
      by (simp add: effects_txMonitor_Cons txRound_not_indexed [OF not_indexed])
    with Cons.IH [of ?p'] not_indexed show ?thesis by auto
  next
    case (indexed t)
    let ?p' = "\<lparr>sender = sender p, hash = hash p, data = data p,
                 nonce = Some (tx_nonce t), gasPrice = Some (tx_gasPrice t)\<rparr>"
    have "replacements (effects (txMonitor h (w # ws) p)) =
            replacements (effects (txMonitor h ws ?p'))"
      by (simp add: effects_txMonitor_Cons txRound_indexed [OF indexed])
    with Cons.IH [of ?p'] indexed show ?thesis by auto
  next
    case (no_candidate n g)
    have "replacements (effects (txMonitor h (w # ws) p)) =
            replacements (effects (txMonitor h ws p))"
      by (simp add: effects_txMonitor_Cons txRound_no_candidate [OF no_candidate])
    with Cons.IH [of p] show ?thesis by simp
  next
    case (pending n g t)
    let ?p' = "\<lparr>sender = sender p, hash = tx_hash t, data = tx_input t,
                 nonce = Some n, gasPrice = Some (tx_gasPrice t)\<rparr>"
    have eq: "replacements (effects (txMonitor h (w # ws) p)) =
            t # replacements (effects (txMonitor h ws ?p'))"
      by (simp add: effects_txMonitor_Cons txRound_candidate_pending [OF pending])
    from pending(3) have lt: "toBN h g < toBN h (tx_gasPrice t)"
      by (rule replacementTransaction_Some)
    from Cons.IH [of ?p']
    have srt: "sorted_wrt (\<lambda>a b. toBN h (tx_gasPrice a) < toBN h (tx_gasPrice b))
                 (replacements (effects (txMonitor h ws ?p')))"
      and above: "\<forall>u \<in> set (replacements (effects (txMonitor h ws ?p'))).
                    toBN h (tx_gasPrice t) < toBN h (tx_gasPrice u)"
      by simp_all
    from above lt have "\<forall>u \<in> set (replacements (effects (txMonitor h ws ?p'))).
                    toBN h g < toBN h (tx_gasPrice u)"
      by fastforce
    with srt above lt pending(1,2) show ?thesis
      unfolding eq by simp
  next
    case (mined n g t r)
    have eq: "replacements (effects (txMonitor h (w # ws) p)) = [t]"
      by (simp add: effects_txMonitor_Cons txRound_candidate_mined [OF mined])
    from mined(3) have "toBN h g < toBN h (tx_gasPrice t)"
      by (rule replacementTransaction_Some)
    with mined(1,2) show ?thesis unfolding eq by simp
  qed
qed

lemma txMonitor_fee_sorted:
  "sorted_wrt (\<lambda>a b. toBN h (the (gasPrice a)) \<le> toBN h (the (gasPrice b)))
     (filter (\<lambda>q. nonce q \<noteq> None \<and> gasPrice q \<noteq> None) (map fst (txMonitor h ws p)))"
proof (induction ws arbitrary: p)
  case Nil
  show ?case by simp
next
  case (Cons w ws)
  show ?case
  proof (cases "snd (txRound h w p)")
    case None
    then show ?thesis by (simp add: txMonitor_Cons)
  next
    case (Some p')
    show ?thesis
    proof (cases "nonce p \<noteq> None \<and> gasPrice p \<noteq> None")
      case False
      then have "filter (\<lambda>q. nonce q \<noteq> None \<and> gasPrice q \<noteq> None)
                   (map fst (txMonitor h (w # ws) p)) =
                 filter (\<lambda>q. nonce q \<noteq> None \<and> gasPrice q \<noteq> None)
                   (map fst (txMonitor h ws p'))"
        using Some by (simp add: txMonitor_Cons)
      with Cons.IH [of p'] show ?thesis by simp
    next
      case True
      then obtain n g where ng: "nonce p = Some n" "gasPrice p = Some g" by auto
      from txRound_polling_next [OF ng Some]
      obtain g' where p': "nonce p' = Some n" "gasPrice p' = Some g'" "toBN h g \<le> toBN h g'"
        by (elim conjE exE)
      have "\<forall>q \<in> set (map fst (txMonitor h ws p')).
              toBN h (the (gasPrice p)) \<le> toBN h (the (gasPrice q))"
      proof
        fix q assume "q \<in> set (map fst (txMonitor h ws p'))"
        with txMonitor_polling_invariant [OF p'(1,2), of h ws]
        obtain g'' where "gasPrice q = Some g''" "toBN h g' \<le> toBN h g''" by blast
        with p'(3) ng show "toBN h (the (gasPrice p)) \<le> toBN h (the (gasPrice q))" by simp
      qed
      with Some True Cons.IH [of p'] show ?thesis by (auto simp: txMonitor_Cons)
    qed
  qed
qed

lemma candidate_tx3:
  "replacementTransaction plainHelpers ''0xA'' ''h2'' ''0xd'' 5 ''20'' [tx3] = Some tx3"
  by (simp add: replacementTransaction_def tx3_def decimalBN_values)

lemma no_candidate_tx2:
  "replacementTransaction plainHelpers ''0xA'' ''h3'' ''0xd'' 5 ''30'' [tx2] = None"
  by (simp add: replacementTransaction_def tx2_def decimalBN_values)

lemma round_nodeSecondSpeedUp:
  "txRound plainHelpers nodeSecondSpeedUp tracking2 =
     ([Info_receipt None, Info_latestBlock \<lparr>block_number = 8, transactions = [tx3]\<rparr>,
       Info_replacementTransaction (Some tx3)], Some tracking3)"
  by (simp add: txRound_def nodeSecondSpeedUp_def tracking2_def tracking3_def candidate_tx3)
     (simp add: tx3_def)

lemma round_lower_fee:
  "txRound plainHelpers nodeSpeedUpSeen tracking3 =
     ([Info_receipt None, Info_latestBlock \<lparr>block_number = 7, transactions = [tx2]\<rparr>,
       Info_replacementTransaction None], Some tracking3)"
  by (simp add: txRound_def nodeSpeedUpSeen_def tracking3_def no_candidate_tx2)

lemma session_two_speed_ups:
  "txMonitor plainHelpers [nodeSpeedUpSeen, nodeSecondSpeedUp, nodeSpeedUpSeen] tracking1 =
     [(tracking1,
       [Info_receipt None, Info_latestBlock \<lparr>block_number = 7, transactions = [tx2]\<rparr>,
        Info_replacementTransaction (Some tx2)], Some tracking2),
      (tracking2,
       [Info_receipt None, Info_latestBlock \<lparr>block_number = 8, transactions = [tx3]\<rparr>,
        Info_replacementTransaction (Some tx3)], Some tracking3),
      (tracking3,
       [Info_receipt None, Info_latestBlock \<lparr>block_number = 7, transactions = [tx2]\<rparr>,
        Info_replacementTransaction None], Some tracking3)]"
  by (simp add: txMonitor_Cons round_nodeSpeedUpSeen round_nodeSecondSpeedUp round_lower_fee)

subsection \<open>The nonce over a session\<close>

lemma txMonitor_nonce_stable:
  assumes "nonce q = Some n" and "gasPrice q = Some g"
  shows "\<forall>r \<in> set (txMonitor h ws q).
           nonce (fst r) = Some n \<and> (\<forall>q'. snd (snd r) = Some q' \<longrightarrow> nonce q' = Some n)"
proof
  fix r assume r: "r \<in> set (txMonitor h ws q)"
  obtain q1 es nx where eq: "r = (q1, es, nx)" by (cases r) auto
  from r have "fst r \<in> set (map fst (txMonitor h ws q))" by simp
  with txMonitor_polling_invariant [OF assms, of h ws] eq
  obtain g1 where q1: "nonce q1 = Some n" "gasPrice q1 = Some g1" by fastforce
  from r eq obtain w where w: "txRound h w q1 = (es, nx)"
    using txMonitor_entries [of q1 es nx h ws q] by blast
  have "\<forall>q'. nx = Some q' \<longrightarrow> nonce q' = Some n"
  proof (intro allI impI)
    fix q' assume "nx = Some q'"
    with w have "snd (txRound h w q1) = Some q'" by simp
    from txRound_polling_next [OF q1 this] show "nonce q' = Some n" by simp
  qed
  with q1 eq show "nonce (fst r) = Some n \<and> (\<forall>q'. snd (snd r) = Some q' \<longrightarrow> nonce q' = Some n)"
    by simp
qed

lemma txMonitor_not_indexed_then_indexed:
  assumes "nonce p = None \<or> gasPrice p = None"
    and "getTransaction w1 (hash p) = None" and "getTransaction w2 (hash p) = Some t"
  shows "txMonitor h (w1 # w2 # ws) p =
           (p, [], Some \<lparr>sender = sender p, hash = hash p, data = data p,
                         nonce = None, gasPrice = None\<rparr>) #
           (\<lparr>sender = sender p, hash = hash p, data = data p, nonce = None, gasPrice = None\<rparr>,
            [Info_transaction t],
            Some \<lparr>sender = sender p, hash = hash p, data = data p,
                  nonce = Some (tx_nonce t), gasPrice = Some (tx_gasPrice t)\<rparr>) #
           txMonitor h ws \<lparr>sender = sender p, hash = hash p, data = data p,
                            nonce = Some (tx_nonce t), gasPrice = Some (tx_gasPrice t)\<rparr>"
proof -
  let ?p0 = "\<lparr>sender = sender p, hash = hash p, data = data p, nonce = None, gasPrice = None\<rparr>"
  have r1: "txRound h w1 p = ([], Some ?p0)"
    using assms(1,2) by (rule txRound_not_indexed)
  have "txRound h w2 ?p0 =
          ([Info_transaction t],
           Some \<lparr>sender = sender ?p0, hash = hash ?p0, data = data ?p0,
                 nonce = Some (tx_nonce t), gasPrice = Some (tx_gasPrice t)\<rparr>)"
    using assms(3) by (intro txRound_indexed) simp_all
  then have r2: "txRound h w2 ?p0 =
          ([Info_transaction t],
           Some \<lparr>sender = sender p, hash = hash p, data = data p,
                 nonce = Some (tx_nonce t), gasPrice = Some (tx_gasPrice t)\<rparr>)"
    by simp
  show ?thesis
    by (simp add: txMonitor_Cons [of h w1] txMonitor_Cons [of h w2] r1 r2)
qed

subsection \<open>The receipt of the tracked hash\<close>

lemma replacement_other_hash:
  assumes "sameString h x x" and "replacementTransaction h s x d n g txs = Some t"
  shows "tx_hash t \<noteq> x"
proof
  assume "tx_hash t = x"
  moreover from assms(2) have "\<not> sameString h (tx_hash t) x"
    by (rule replacementTransaction_Some)
  ultimately show False using assms(1) by simp
qed

lemma round_nodePending_tracking1:
  "txRound plainHelpers nodePending tracking1 =
     ([Info_receipt None, Info_latestBlock \<lparr>block_number = 6, transactions = []\<rparr>,
       Info_replacementTransaction None], Some tracking1)"
  by (simp add: txRound_def nodePending_def tracking1_def replacementTransaction_def)

lemma no_candidate_tx1:
  "replacementTransaction plainHelpers ''0xA'' ''h1'' ''0xd'' 5 ''10'' [tx1] = None"
  by (simp add: replacementTransaction_def tx1_def)

lemma round_nodeOriginalMined:
  "txRound plainHelpers nodeOriginalMined tracking1 =
     ([Info_receipt (Some receipt1), Info_latestBlock \<lparr>block_number = 7, transactions = [tx1]\<rparr>,
       Info_replacementTransaction None], Some tracking1)"
  by (simp add: txRound_def nodeOriginalMined_def tracking1_def no_candidate_tx1)

lemma session_original_mined:
  "callbacks (effects (txMonitor plainHelpers (replicate k nodeOriginalMined) tracking1)) = [] \<and>
   length (txMonitor plainHelpers (replicate k nodeOriginalMined) tracking1) = k"
  by (induction k)
     (simp_all add: effects_Nil effects_Cons callbacks_append txMonitor_Cons round_nodeOriginalMined)

subsection \<open>The first match of the search\<close>

lemma replacementTransaction_first:
  "replacementTransaction h s x d n g txs = Some t \<longleftrightarrow>
     (\<exists>i < length txs. txs ! i = t \<and>
        sameAddress h (tx_from t) s \<and> tx_nonce t = n \<and> \<not> sameString h (tx_hash t) x \<and>
        sameString h (tx_input t) d \<and> toBN h g < toBN h (tx_gasPrice t) \<and>
        (\<forall>j < i. \<not> (sameAddress h (tx_from (txs ! j)) s \<and> tx_nonce (txs ! j) = n \<and>
                     \<not> sameString h (tx_hash (txs ! j)) x \<and> sameString h (tx_input (txs ! j)) d \<and>
                     toBN h g < toBN h (tx_gasPrice (txs ! j)))))"
  unfolding replacementTransaction_def find_Some_iff by auto

lemma txRound_polling_effects:
  assumes "nonce p = Some n" and "gasPrice p = Some g"
  shows "\<exists>es. fst (txRound h w p) =
           [Info_receipt (getTransactionReceipt w (hash p)), Info_latestBlock (getBlockLatest w),
            Info_replacementTransaction
              (replacementTransaction h (sender p) (hash p) (data p) n g
                 (transactions (getBlockLatest w)))] @ es \<and>
           (\<forall>x. Info_replacementTransaction x \<notin> set es)"
proof (cases "replacementTransaction h (sender p) (hash p) (data p) n g
                (transactions (getBlockLatest w))")
  case None
  from txRound_no_candidate [OF assms None] None show ?thesis by simp
next
  case (Some t)
  show ?thesis
  proof (cases "getTransactionReceipt w (tx_hash t)")
    case None
    from txRound_candidate_pending [OF assms Some None] Some show ?thesis by simp
  next
    case (Some r)
    from txRound_candidate_mined [OF assms \<open>replacementTransaction h (sender p) (hash p) (data p) n g
                (transactions (getBlockLatest w)) = Some t\<close> Some]
      \<open>replacementTransaction h (sender p) (hash p) (data p) n g
                (transactions (getBlockLatest w)) = Some t\<close>
    show ?thesis by simp
  qed
qed

lemma txRound_printed_replacement:
  assumes "nonce p = Some n" and "gasPrice p = Some g"
  shows "Info_replacementTransaction x \<in> set (fst (txRound h w p)) \<longleftrightarrow>
         x = replacementTransaction h (sender p) (hash p) (data p) n g
               (transactions (getBlockLatest w))"
proof -
  from txRound_polling_effects [OF assms, of h w]
  obtain es where es: "fst (txRound h w p) =
           [Info_receipt (getTransactionReceipt w (hash p)), Info_latestBlock (getBlockLatest w),
            Info_replacementTransaction
              (replacementTransaction h (sender p) (hash p) (data p) n g
                 (transactions (getBlockLatest w)))] @ es"
    and no: "\<forall>x. Info_replacementTransaction x \<notin> set es"
    by blast
  show ?thesis unfolding es using no by auto
qed

lemma candidate_two_speed_ups:
  "replacementTransaction plainHelpers ''0xA'' ''h1'' ''0xd'' 5 ''10'' [tx2, tx3] = Some tx2"
  by (simp add: replacementTransaction_def tx2_def decimalBN_values)

lemma candidate_after_others:
  "replacementTransaction plainHelpers ''0xA'' ''h1'' ''0xd'' 5 ''10'' [txStale, txCancel, tx2] = Some tx2"
  by (simp add: replacementTransaction_def tx2_def txStale_def txCancel_def decimalBN_values)

lemma round_nodeTwoSpeedUps:
  "snd (txRound plainHelpers nodeTwoSpeedUps tracking1) = Some tracking2"
  by (simp add: txRound_def nodeTwoSpeedUps_def tracking1_def tracking2_def candidate_two_speed_ups)
     (simp add: tx2_def)

lemma round_nodeOthersThenSpeedUp:
  "snd (txRound plainHelpers nodeOthersThenSpeedUp tracking1) = Some tracking2"
  by (simp add: txRound_def nodeOthersThenSpeedUp_def tracking1_def tracking2_def candidate_after_others)
     (simp add: tx2_def)

subsection \<open>Rounds with calls that fail\<close>

lemma txRoundRpc_resolved: "txRoundRpc h (resolved w) p = txRound h w p"
  by (simp add: txRoundRpc_def txRound_def resolved_def Let_def split: option.splits)

lemma txMonitorRpc_resolved: "txMonitorRpc h (map resolved ws) p = txMonitor h ws p"
  by (induction ws arbitrary: p)
     (simp_all add: txRoundRpc_resolved txMonitor.simps(2) split: prod.splits option.splits)

lemma txRoundRpc_lookup_null:
  assumes "nonce p = None \<or> gasPrice p = None" and "rpc_getTransaction w (hash p) = Resolved None"
  shows "txRoundRpc h w p =
           ([], Some \<lparr>sender = sender p, hash = hash p, data = data p, nonce = None, gasPrice = None\<rparr>)"
  using assms by (auto simp: txRoundRpc_def)

lemma txRoundRpc_lookup_rejected:
  assumes "nonce p = None \<or> gasPrice p = None" and "rpc_getTransaction w (hash p) = Rejected"
  shows "txRoundRpc h w p = ([], None)"
  using assms by (auto simp: txRoundRpc_def)

lemma txRoundRpc_block_rejected:
  assumes "nonce p = Some n" and "gasPrice p = Some g" and "rpc_getBlockLatest w = Rejected"
  shows "snd (txRoundRpc h w p) = None \<and> callbacks (fst (txRoundRpc h w p)) = []"
  using assms by (simp add: txRoundRpc_def split: rpc.splits)

lemma txRoundRpc_no_candidate:
  assumes "nonce p = Some n" and "gasPrice p = Some g" and "rpc_getBlockLatest w = Resolved b"
    and "replacementTransaction h (sender p) (hash p) (data p) n g (transactions b) = None"
  shows "snd (txRoundRpc h w p) = Some p \<and> callbacks (fst (txRoundRpc h w p)) = []"
  using assms by (simp add: txRoundRpc_def callbacks_append split: rpc.splits)

lemma txRoundRpc_receipt_null:
  assumes "nonce p = Some n" and "gasPrice p = Some g" and "rpc_getBlockLatest w = Resolved b"
    and "replacementTransaction h (sender p) (hash p) (data p) n g (transactions b) = Some t"
    and "rpc_getTransactionReceipt w (tx_hash t) = Resolved None"
  shows "snd (txRoundRpc h w p) =
           Some \<lparr>sender = sender p, hash = tx_hash t, data = tx_input t,
                 nonce = Some n, gasPrice = Some (tx_gasPrice t)\<rparr> \<and>
         callbacks (fst (txRoundRpc h w p)) = []"
  using assms by (simp add: txRoundRpc_def callbacks_append split: rpc.splits)

lemma txRoundRpc_receipt_rejected:
  assumes "nonce p = Some n" and "gasPrice p = Some g" and "rpc_getBlockLatest w = Resolved b"
    and "replacementTransaction h (sender p) (hash p) (data p) n g (transactions b) = Some t"
    and "rpc_getTransactionReceipt w (tx_hash t) = Rejected"
  shows "snd (txRoundRpc h w p) = None \<and> callbacks (fst (txRoundRpc h w p)) = []"
  using assms by (simp add: txRoundRpc_def callbacks_append split: rpc.splits)

lemma txRoundRpc_receipt_found:
  assumes "nonce p = Some n" and "gasPrice p = Some g" and "rpc_getBlockLatest w = Resolved b"
    and "replacementTransaction h (sender p) (hash p) (data p) n g (transactions b) = Some t"
    and "rpc_getTransactionReceipt w (tx_hash t) = Resolved (Some r)"
  shows "snd (txRoundRpc h w p) = None \<and> callbacks (fst (txRoundRpc h w p)) = [r]"
  using assms by (simp add: txRoundRpc_def callbacks_append split: rpc.splits)

lemma txRoundRpc_callbacks_le: "length (callbacks (fst (txRoundRpc h w p))) \<le> 1"
  by (auto simp: txRoundRpc_def Let_def callbacks_append split: rpc.splits option.splits)

lemma txRoundRpc_callbacks_stop:
  "snd (txRoundRpc h w p) \<noteq> None \<Longrightarrow> callbacks (fst (txRoundRpc h w p)) = []"
  by (auto simp: txRoundRpc_def Let_def callbacks_append split: rpc.splits option.splits if_splits)

lemma txRoundRpc_stop:
  "snd (txRoundRpc h w p) = None \<Longrightarrow>
     (\<exists>r. callbacks (fst (txRoundRpc h w p)) = [r]) \<or>
     rpc_getTransaction w (hash p) = Rejected \<or> rpc_getBlockLatest w = Rejected \<or>
     (\<exists>x. rpc_getTransactionReceipt w x = Rejected)"
  by (auto simp: txRoundRpc_def Let_def callbacks_append split: rpc.splits option.splits if_splits)

lemma txMonitorRpc_Cons:
  "txMonitorRpc h (w # ws) p =
     (p, fst (txRoundRpc h w p), snd (txRoundRpc h w p)) #
     (case snd (txRoundRpc h w p) of None \<Rightarrow> [] | Some p' \<Rightarrow> txMonitorRpc h ws p')"
  by (cases "txRoundRpc h w p") (simp split: option.splits)

lemma txMonitorRpc_callbacks_le: "length (callbacks (effects (txMonitorRpc h ws p))) \<le> 1"
proof (induction ws arbitrary: p)
  case Nil
  show ?case by (simp add: effects_Nil)
next
  case (Cons w ws)
  show ?case
  proof (cases "snd (txRoundRpc h w p)")
    case None
    then show ?thesis
      using txRoundRpc_callbacks_le [of h w p]
      by (simp add: txMonitorRpc_Cons effects_Cons effects_Nil del: txMonitorRpc.simps)
  next
    case (Some p')
    then have "callbacks (fst (txRoundRpc h w p)) = []"
      using txRoundRpc_callbacks_stop [of h w p] by simp
    with Some Cons.IH [of p'] show ?thesis
      by (simp add: txMonitorRpc_Cons effects_Cons callbacks_append del: txMonitorRpc.simps)
  qed
qed

subsection \<open>The claims\<close>

text \<open>
  Claim C1. Whatever the node answers over the rounds of a session, \<^verbatim>\<open>cb\<close> is
  called at most once. A round that calls it is the last round of the session and makes
  no recursive call, and the only round that calls it is the one in which a replacement
  transaction was found in the latest block and the receipt of that transaction is not
  \<^verbatim>\<open>null\<close>; the receipt is the argument.
\<close>

theorem txMonitor_callback_at_most_once:
  "length (callbacks (effects (txMonitor h ws p))) \<le> 1 \<and>
   (\<forall>i. i < length (txMonitor h ws p) \<and> callbacks (fst (snd (txMonitor h ws p ! i))) \<noteq> [] \<longrightarrow>
        snd (snd (txMonitor h ws p ! i)) = None \<and> Suc i = length (txMonitor h ws p)) \<and>
   (callbacks (fst (txRound h w q)) \<noteq> [] \<longrightarrow>
      snd (txRound h w q) = None \<and>
      (\<exists>n g t r. nonce q = Some n \<and> gasPrice q = Some g \<and>
         replacementTransaction h (sender q) (hash q) (data q) n g
           (transactions (getBlockLatest w)) = Some t \<and>
         getTransactionReceipt w (tx_hash t) = Some r \<and>
         callbacks (fst (txRound h w q)) = [r]))"
proof (intro conjI allI impI)
  show "length (callbacks (effects (txMonitor h ws p))) \<le> 1"
    by (rule txMonitor_callbacks_le)
next
  fix i
  assume a: "i < length (txMonitor h ws p) \<and> callbacks (fst (snd (txMonitor h ws p ! i))) \<noteq> []"
  obtain q' es nx where e: "txMonitor h ws p ! i = (q', es, nx)"
    by (cases "txMonitor h ws p ! i") auto
  with a have "(q', es, nx) \<in> set (txMonitor h ws p)"
    by (metis nth_mem)
  then obtain w' where w': "txRound h w' q' = (es, nx)"
    using txMonitor_entries by blast
  from a e have "callbacks es \<noteq> []" by simp
  with w' have "nx = None"
    using txRound_callbacks_stop [of h w' q'] by (cases nx) simp_all
  with e show none: "snd (snd (txMonitor h ws p ! i)) = None" by simp
  with a show "Suc i = length (txMonitor h ws p)"
    by (simp add: txMonitor_None_last)
next
  assume "callbacks (fst (txRound h w q)) \<noteq> []"
  then show "snd (txRound h w q) = None"
    using txRound_callbacks_stop [of h w q] by blast
next
  assume "callbacks (fst (txRound h w q)) \<noteq> []"
  then show "\<exists>n g t r. nonce q = Some n \<and> gasPrice q = Some g \<and>
         replacementTransaction h (sender q) (hash q) (data q) n g
           (transactions (getBlockLatest w)) = Some t \<and>
         getTransactionReceipt w (tx_hash t) = Some r \<and>
         callbacks (fst (txRound h w q)) = [r]"
    using txRound_callbacks_only_mined [of h w q] by blast
qed

theorem txMonitor_callback_at_most_once_witness:
  "2 < length (txMonitor plainHelpers [nodeEmpty, nodePending, nodeSpeedUpMined, nodeSpeedUpMined] intent1) \<and>
   callbacks (fst (snd (txMonitor plainHelpers
      [nodeEmpty, nodePending, nodeSpeedUpMined, nodeSpeedUpMined] intent1 ! 2))) = [receipt2] \<and>
   snd (snd (txMonitor plainHelpers
      [nodeEmpty, nodePending, nodeSpeedUpMined, nodeSpeedUpMined] intent1 ! 2)) = None \<and>
   length (txMonitor plainHelpers [nodeEmpty, nodePending, nodeSpeedUpMined, nodeSpeedUpMined] intent1) = 3 \<and>
   length (callbacks (effects (txMonitor plainHelpers
      [nodeEmpty, nodePending, nodeSpeedUpMined, nodeSpeedUpMined] intent1))) \<le> 1 \<and>
   callbacks (fst (txRound plainHelpers nodeSpeedUpMined tracking1)) = [receipt2] \<and>
   snd (txRound plainHelpers nodeSpeedUpMined tracking1) = None"
  using txMonitor_callback_at_most_once
    [of plainHelpers "[nodeEmpty, nodePending, nodeSpeedUpMined, nodeSpeedUpMined]" intent1
        nodeSpeedUpMined tracking1]
  by (simp add: session_speed_up_mined round_nodeSpeedUpMined effects_def)

text \<open>
  Claim C2. In a round with nonce and gasPrice known, the replacement is the first
  transaction of the latest block, in block order, that satisfies the five conjuncts
  (\<^verbatim>\<open>sameAddress\<close> with the tracked sender, the tracked nonce, a hash that is not
  \<^verbatim>\<open>sameString\<close> with the tracked hash, an input that is \<^verbatim>\<open>sameString\<close> with the
  tracked data, a fee above the tracked fee): a transaction is selected if and only if it
  stands at some place of the block, satisfies the five conjuncts, and no transaction at
  an earlier place does. The round prints that selection and no other. A transaction of
  another sender, or one with other calldata, is never selected. When no transaction of
  the block satisfies the five conjuncts the round keeps the tracked parameters and does
  not call \<^verbatim>\<open>cb\<close>; the recursive call changes the parameters only to those of the
  selected transaction, and \<^verbatim>\<open>cb\<close> gets only the receipt of the selected transaction.
\<close>

theorem replacement_is_first_match:
  assumes "nonce p = Some n" and "gasPrice p = Some g"
  shows "(replacementTransaction h (sender p) (hash p) (data p) n g
            (transactions (getBlockLatest w)) = Some t \<longleftrightarrow>
          (\<exists>i < length (transactions (getBlockLatest w)).
             transactions (getBlockLatest w) ! i = t \<and>
             sameAddress h (tx_from t) (sender p) \<and> tx_nonce t = n \<and>
             \<not> sameString h (tx_hash t) (hash p) \<and> sameString h (tx_input t) (data p) \<and>
             toBN h g < toBN h (tx_gasPrice t) \<and>
             (\<forall>j < i. \<not> (sameAddress h (tx_from (transactions (getBlockLatest w) ! j)) (sender p) \<and>
                          tx_nonce (transactions (getBlockLatest w) ! j) = n \<and>
                          \<not> sameString h (tx_hash (transactions (getBlockLatest w) ! j)) (hash p) \<and>
                          sameString h (tx_input (transactions (getBlockLatest w) ! j)) (data p) \<and>
                          toBN h g < toBN h (tx_gasPrice (transactions (getBlockLatest w) ! j)))))) \<and>
         (\<forall>x. Info_replacementTransaction x \<in> set (fst (txRound h w p)) \<longleftrightarrow>
              x = replacementTransaction h (sender p) (hash p) (data p) n g
                    (transactions (getBlockLatest w))) \<and>
         (\<not> sameAddress h (tx_from t) (sender p) \<or> \<not> sameString h (tx_input t) (data p) \<longrightarrow>
            replacementTransaction h (sender p) (hash p) (data p) n g
              (transactions (getBlockLatest w)) \<noteq> Some t \<and>
            Info_replacementTransaction (Some t) \<notin> set (fst (txRound h w p))) \<and>
         ((\<forall>u \<in> set (transactions (getBlockLatest w)).
             \<not> (sameAddress h (tx_from u) (sender p) \<and> tx_nonce u = n \<and>
                \<not> sameString h (tx_hash u) (hash p) \<and> sameString h (tx_input u) (data p) \<and>
                toBN h g < toBN h (tx_gasPrice u))) \<longrightarrow>
            snd (txRound h w p) = Some p \<and> callbacks (fst (txRound h w p)) = []) \<and>
         (\<forall>p'. snd (txRound h w p) = Some p' \<longrightarrow>
            p' = p \<or>
            (\<exists>c. replacementTransaction h (sender p) (hash p) (data p) n g
                    (transactions (getBlockLatest w)) = Some c \<and>
                 getTransactionReceipt w (tx_hash c) = None \<and>
                 p' = \<lparr>sender = sender p, hash = tx_hash c, data = tx_input c,
                       nonce = Some n, gasPrice = Some (tx_gasPrice c)\<rparr>)) \<and>
         (\<forall>r. callbacks (fst (txRound h w p)) = [r] \<longrightarrow>
            (\<exists>c. replacementTransaction h (sender p) (hash p) (data p) n g
                    (transactions (getBlockLatest w)) = Some c \<and>
                 getTransactionReceipt w (tx_hash c) = Some r))"
  (is "?first \<and> ?printed \<and> ?never \<and> ?none \<and> ?step \<and> ?called")
proof -
  have first: ?first by (rule replacementTransaction_first)
  have printed: ?printed
    using txRound_printed_replacement [OF assms, of _ h w] by blast
  have never: ?never
  proof
    assume other: "\<not> sameAddress h (tx_from t) (sender p) \<or> \<not> sameString h (tx_input t) (data p)"
    have ne: "replacementTransaction h (sender p) (hash p) (data p) n g
              (transactions (getBlockLatest w)) \<noteq> Some t"
    proof
      assume sel: "replacementTransaction h (sender p) (hash p) (data p) n g
              (transactions (getBlockLatest w)) = Some t"
      then have "sameAddress h (tx_from t) (sender p)" and "sameString h (tx_input t) (data p)"
        by (rule replacementTransaction_Some)+
      with other show False by blast
    qed
    then have "Info_replacementTransaction (Some t) \<notin> set (fst (txRound h w p))"
      using txRound_printed_replacement [OF assms, of "Some t" h w] by simp
    with ne show "replacementTransaction h (sender p) (hash p) (data p) n g
              (transactions (getBlockLatest w)) \<noteq> Some t \<and>
            Info_replacementTransaction (Some t) \<notin> set (fst (txRound h w p))" ..
  qed
  have none: ?none
  proof
    assume "\<forall>u \<in> set (transactions (getBlockLatest w)).
             \<not> (sameAddress h (tx_from u) (sender p) \<and> tx_nonce u = n \<and>
                \<not> sameString h (tx_hash u) (hash p) \<and> sameString h (tx_input u) (data p) \<and>
                toBN h g < toBN h (tx_gasPrice u))"
    then have "replacementTransaction h (sender p) (hash p) (data p) n g
              (transactions (getBlockLatest w)) = None"
      using replacementTransaction_None [of h "sender p" "hash p" "data p" n g
          "transactions (getBlockLatest w)"] by blast
    from txRound_no_candidate [OF assms this]
    show "snd (txRound h w p) = Some p \<and> callbacks (fst (txRound h w p)) = []" by simp
  qed
  have step: ?step
    using txRound_polling_step [OF assms, of h w] by blast
  have called: ?called
  proof (intro allI impI)
    fix r assume "callbacks (fst (txRound h w p)) = [r]"
    then have "callbacks (fst (txRound h w p)) \<noteq> []" by simp
    from txRound_callbacks_only_mined [OF this] assms \<open>callbacks (fst (txRound h w p)) = [r]\<close>
    show "\<exists>c. replacementTransaction h (sender p) (hash p) (data p) n g
                    (transactions (getBlockLatest w)) = Some c \<and>
                 getTransactionReceipt w (tx_hash c) = Some r"
      by auto
  qed
  from first printed never none step called show ?thesis by (intro conjI)
qed

text \<open>
  "Selected if and only if it satisfies the five conjuncts" does not hold of every
  transaction: with two speed-ups \<^verbatim>\<open>h2\<close> and \<^verbatim>\<open>h3\<close> in the latest block, both
  satisfy the five conjuncts, \<^verbatim>\<open>h2\<close> comes first and is selected and adopted, and
  \<^verbatim>\<open>h3\<close> is not.
\<close>

theorem replacement_iff_counterexample:
  "nonce tracking1 = Some 5 \<and> gasPrice tracking1 = Some ''10'' \<and>
   tx3 \<in> set (transactions (getBlockLatest nodeTwoSpeedUps)) \<and>
   sameAddress plainHelpers (tx_from tx3) (sender tracking1) \<and>
   tx_nonce tx3 = 5 \<and>
   \<not> sameString plainHelpers (tx_hash tx3) (hash tracking1) \<and>
   sameString plainHelpers (tx_input tx3) (data tracking1) \<and>
   toBN plainHelpers ''10'' < toBN plainHelpers (tx_gasPrice tx3) \<and>
   replacementTransaction plainHelpers (sender tracking1) (hash tracking1) (data tracking1) 5 ''10''
     (transactions (getBlockLatest nodeTwoSpeedUps)) = Some tx2 \<and>
   tx2 \<noteq> tx3 \<and>
   snd (txRound plainHelpers nodeTwoSpeedUps tracking1) = Some tracking2"
proof -
  have "nonce tracking1 = Some 5" and "gasPrice tracking1 = Some ''10''"
    by (simp_all add: tracking1_def)
  moreover have "tx3 \<in> set (transactions (getBlockLatest nodeTwoSpeedUps))"
    by (simp add: nodeTwoSpeedUps_def)
  moreover have "sameAddress plainHelpers (tx_from tx3) (sender tracking1)"
    and "tx_nonce tx3 = 5"
    and "\<not> sameString plainHelpers (tx_hash tx3) (hash tracking1)"
    and "sameString plainHelpers (tx_input tx3) (data tracking1)"
    and "toBN plainHelpers ''10'' < toBN plainHelpers (tx_gasPrice tx3)"
    by (simp_all add: tx3_def tracking1_def decimalBN_values)
  moreover have "replacementTransaction plainHelpers (sender tracking1) (hash tracking1)
      (data tracking1) 5 ''10'' (transactions (getBlockLatest nodeTwoSpeedUps)) = Some tx2"
    by (simp add: tracking1_def nodeTwoSpeedUps_def candidate_two_speed_ups)
  moreover have "tx2 \<noteq> tx3" by (simp add: tx2_def tx3_def)
  moreover note round_nodeTwoSpeedUps
  ultimately show ?thesis by (intro conjI)
qed

theorem replacement_is_first_match_witness:
  "nonce tracking1 = Some 5 \<and> gasPrice tracking1 = Some ''10'' \<and>
   replacementTransaction plainHelpers (sender tracking1) (hash tracking1) (data tracking1) 5 ''10''
     (transactions (getBlockLatest nodeOthersThenSpeedUp)) = Some tx2 \<and>
   transactions (getBlockLatest nodeOthersThenSpeedUp) ! 2 = tx2 \<and>
   Info_replacementTransaction (Some tx2) \<in> set (fst (txRound plainHelpers nodeOthersThenSpeedUp tracking1)) \<and>
   \<not> sameAddress plainHelpers (tx_from txStale) (sender tracking1) \<and>
   replacementTransaction plainHelpers (sender tracking1) (hash tracking1) (data tracking1) 5 ''10''
     (transactions (getBlockLatest nodeOthersThenSpeedUp)) \<noteq> Some txStale \<and>
   Info_replacementTransaction (Some txStale) \<notin>
     set (fst (txRound plainHelpers nodeOthersThenSpeedUp tracking1)) \<and>
   \<not> sameString plainHelpers (tx_input txCancel) (data tracking1) \<and>
   replacementTransaction plainHelpers (sender tracking1) (hash tracking1) (data tracking1) 5 ''10''
     (transactions (getBlockLatest nodeOthersThenSpeedUp)) \<noteq> Some txCancel \<and>
   Info_replacementTransaction (Some txCancel) \<notin>
     set (fst (txRound plainHelpers nodeOthersThenSpeedUp tracking1)) \<and>
   snd (txRound plainHelpers nodeOthersThenSpeedUp tracking1) = Some tracking2 \<and>
   snd (txRound plainHelpers nodeOthersOnly tracking1) = Some tracking1 \<and>
   callbacks (fst (txRound plainHelpers nodeOthersOnly tracking1)) = []"
proof -
  have n: "nonce tracking1 = Some 5" and g: "gasPrice tracking1 = Some ''10''"
    by (simp_all add: tracking1_def)
  note A = replacement_is_first_match [OF n g, where h = plainHelpers and w = nodeOthersThenSpeedUp
      and t = tx2]
  note S = replacement_is_first_match [OF n g, where h = plainHelpers and w = nodeOthersThenSpeedUp
      and t = txStale]
  note C = replacement_is_first_match [OF n g, where h = plainHelpers and w = nodeOthersThenSpeedUp
      and t = txCancel]
  note N = replacement_is_first_match [OF n g, where h = plainHelpers and w = nodeOthersOnly]
  have sel: "replacementTransaction plainHelpers (sender tracking1) (hash tracking1) (data tracking1)
      5 ''10'' (transactions (getBlockLatest nodeOthersThenSpeedUp)) = Some tx2"
    by (simp add: tracking1_def nodeOthersThenSpeedUp_def candidate_after_others)
  have third: "transactions (getBlockLatest nodeOthersThenSpeedUp) ! 2 = tx2"
    by (simp add: nodeOthersThenSpeedUp_def)
  have printed: "Info_replacementTransaction (Some tx2) \<in>
      set (fst (txRound plainHelpers nodeOthersThenSpeedUp tracking1))"
    using A [THEN conjunct2, THEN conjunct1, THEN spec, of "Some tx2"] sel by simp
  have stale: "\<not> sameAddress plainHelpers (tx_from txStale) (sender tracking1)"
    by (simp add: txStale_def tracking1_def)
  have cancel: "\<not> sameString plainHelpers (tx_input txCancel) (data tracking1)"
    by (simp add: txCancel_def tracking1_def)
  note s = S [THEN conjunct2, THEN conjunct2, THEN conjunct1, THEN mp, OF disjI1, OF stale]
  note c = C [THEN conjunct2, THEN conjunct2, THEN conjunct1, THEN mp, OF disjI2, OF cancel]
  have nx: "snd (txRound plainHelpers nodeOthersThenSpeedUp tracking1) = Some tracking2"
    by (rule round_nodeOthersThenSpeedUp)
  have none: "\<forall>u \<in> set (transactions (getBlockLatest nodeOthersOnly)).
             \<not> (sameAddress plainHelpers (tx_from u) (sender tracking1) \<and> tx_nonce u = 5 \<and>
                \<not> sameString plainHelpers (tx_hash u) (hash tracking1) \<and>
                sameString plainHelpers (tx_input u) (data tracking1) \<and>
                toBN plainHelpers ''10'' < toBN plainHelpers (tx_gasPrice u))"
    by (simp add: nodeOthersOnly_def txStale_def txCancel_def tracking1_def)
  note k = N [THEN conjunct2, THEN conjunct2, THEN conjunct2, THEN conjunct1, THEN mp, OF none]
  from n g sel third printed stale s [THEN conjunct1] s [THEN conjunct2]
    cancel c [THEN conjunct1] c [THEN conjunct2] nx k [THEN conjunct1] k [THEN conjunct2]
  show ?thesis by (intro conjI)
qed

text \<open>
  Claim C3. In a round with nonce and gasPrice known in which a replacement transaction is
  found: if its receipt is \<^verbatim>\<open>null\<close>, the recursive call tracks the replacement
  (its hash, input and gasPrice; sender and nonce as before) and \<^verbatim>\<open>cb\<close> is not
  called; if its receipt is \<open>r\<close>, \<^verbatim>\<open>cb\<close> is called with \<open>r\<close>, once, and there is
  no recursive call.
\<close>

theorem replacement_candidate_found_pending_or_mined:
  assumes "nonce p = Some n" and "gasPrice p = Some g"
    and "replacementTransaction h (sender p) (hash p) (data p) n g
           (transactions (getBlockLatest w)) = Some t"
  shows "(getTransactionReceipt w (tx_hash t) = None \<longrightarrow>
            snd (txRound h w p) =
              Some \<lparr>sender = sender p, hash = tx_hash t, data = tx_input t,
                    nonce = nonce p, gasPrice = Some (tx_gasPrice t)\<rparr> \<and>
            callbacks (fst (txRound h w p)) = []) \<and>
         (\<forall>r. getTransactionReceipt w (tx_hash t) = Some r \<longrightarrow>
            callbacks (fst (txRound h w p)) = [r] \<and> snd (txRound h w p) = None)"
  using assms
  by (auto simp: txRound_candidate_pending txRound_candidate_mined)

theorem replacement_candidate_found_pending_or_mined_witness:
  "nonce tracking1 = Some 5 \<and> gasPrice tracking1 = Some ''10'' \<and>
   replacementTransaction plainHelpers (sender tracking1) (hash tracking1) (data tracking1) 5 ''10''
     (transactions (getBlockLatest nodeSpeedUpSeen)) = Some tx2 \<and>
   getTransactionReceipt nodeSpeedUpSeen (tx_hash tx2) = None \<and>
   snd (txRound plainHelpers nodeSpeedUpSeen tracking1) = Some tracking2 \<and>
   callbacks (fst (txRound plainHelpers nodeSpeedUpSeen tracking1)) = [] \<and>
   replacementTransaction plainHelpers (sender tracking1) (hash tracking1) (data tracking1) 5 ''10''
     (transactions (getBlockLatest nodeSpeedUpMined)) = Some tx2 \<and>
   getTransactionReceipt nodeSpeedUpMined (tx_hash tx2) = Some receipt2 \<and>
   callbacks (fst (txRound plainHelpers nodeSpeedUpMined tracking1)) = [receipt2] \<and>
   snd (txRound plainHelpers nodeSpeedUpMined tracking1) = None"
proof -
  have n: "nonce tracking1 = Some 5" and g: "gasPrice tracking1 = Some ''10''"
    by (simp_all add: tracking1_def)
  have seen: "replacementTransaction plainHelpers (sender tracking1) (hash tracking1) (data tracking1)
       5 ''10'' (transactions (getBlockLatest nodeSpeedUpSeen)) = Some tx2"
    by (simp add: tracking1_def nodeSpeedUpSeen_def candidate_tx2)
  have mined: "replacementTransaction plainHelpers (sender tracking1) (hash tracking1) (data tracking1)
       5 ''10'' (transactions (getBlockLatest nodeSpeedUpMined)) = Some tx2"
    by (simp add: tracking1_def nodeSpeedUpMined_def candidate_tx2)
  have r1: "getTransactionReceipt nodeSpeedUpSeen (tx_hash tx2) = None"
    by (simp add: nodeSpeedUpSeen_def)
  have r2: "getTransactionReceipt nodeSpeedUpMined (tx_hash tx2) = Some receipt2"
    by (simp add: nodeSpeedUpMined_def tx2_def)
  have adopt: "\<lparr>sender = sender tracking1, hash = tx_hash tx2, data = tx_input tx2,
                 nonce = nonce tracking1, gasPrice = Some (tx_gasPrice tx2)\<rparr> = tracking2"
    by (simp add: tracking1_def tracking2_def tx2_def)
  show ?thesis
    using replacement_candidate_found_pending_or_mined [OF n g seen]
      replacement_candidate_found_pending_or_mined [OF n g mined]
      n g seen mined r1 r2 adopt
    by simp
qed

text \<open>
  Claim C4. Over the rounds of a session that run with nonce and gasPrice known, the
  tracked fee never decreases, and the replacement transactions found one after the
  other have strictly increasing fees, each above the fee the session started with.
  A transaction whose fee is at most the tracked fee is never selected, and a round
  changes the tracked parameters only by adopting a replacement with a strictly greater
  fee.
\<close>

theorem tracked_fee_monotone:
  "sorted_wrt (\<lambda>a b. toBN h (the (gasPrice a)) \<le> toBN h (the (gasPrice b)))
     (filter (\<lambda>q. nonce q \<noteq> None \<and> gasPrice q \<noteq> None) (map fst (txMonitor h ws p))) \<and>
   sorted_wrt (\<lambda>a b. toBN h (tx_gasPrice a) < toBN h (tx_gasPrice b))
     (replacements (effects (txMonitor h ws p))) \<and>
   (nonce p = Some n \<and> gasPrice p = Some g \<longrightarrow>
      (\<forall>t \<in> set (replacements (effects (txMonitor h ws p))). toBN h g < toBN h (tx_gasPrice t)) \<and>
      (toBN h (tx_gasPrice u) \<le> toBN h g \<longrightarrow>
         replacementTransaction h (sender p) (hash p) (data p) n g txs \<noteq> Some u) \<and>
      (\<forall>p'. snd (txRound h w p) = Some p' \<longrightarrow>
         p' = p \<or>
         (\<exists>t. replacementTransaction h (sender p) (hash p) (data p) n g
                 (transactions (getBlockLatest w)) = Some t \<and>
              getTransactionReceipt w (tx_hash t) = None \<and>
              p' = \<lparr>sender = sender p, hash = tx_hash t, data = tx_input t,
                    nonce = Some n, gasPrice = Some (tx_gasPrice t)\<rparr> \<and>
              toBN h g < toBN h (tx_gasPrice t))))"
  (is "?tracked \<and> ?found \<and> (?known \<longrightarrow> ?above \<and> ?never \<and> ?step)")
proof -
  have tracked: ?tracked by (rule txMonitor_fee_sorted)
  have found: ?found
    using txMonitor_replacements_increasing [of h ws p] by (rule conjunct1)
  have rest: "?known \<longrightarrow> ?above \<and> ?never \<and> ?step"
  proof
    assume known: ?known
    then have n: "nonce p = Some n" and g: "gasPrice p = Some g" by simp_all
    have above: ?above
      using txMonitor_replacements_increasing [of h ws p] known by blast
    have never: ?never
    proof
      assume le: "toBN h (tx_gasPrice u) \<le> toBN h g"
      show "replacementTransaction h (sender p) (hash p) (data p) n g txs \<noteq> Some u"
      proof
        assume "replacementTransaction h (sender p) (hash p) (data p) n g txs = Some u"
        then have "toBN h g < toBN h (tx_gasPrice u)"
          by (rule replacementTransaction_Some)
        with le show False by simp
      qed
    qed
    have step: ?step
      using txRound_polling_step [OF n g] by blast
    from above never step show "?above \<and> ?never \<and> ?step" by (intro conjI)
  qed
  from tracked found rest show ?thesis by (intro conjI)
qed

theorem tracked_fee_monotone_witness:
  "nonce tracking1 = Some 5 \<and> gasPrice tracking1 = Some ''10'' \<and>
   map fst (txMonitor plainHelpers [nodeSpeedUpSeen, nodeSecondSpeedUp, nodeSpeedUpSeen] tracking1) =
     [tracking1, tracking2, tracking3] \<and>
   map (\<lambda>q. toBN plainHelpers (the (gasPrice q))) [tracking1, tracking2, tracking3] = [10, 20, 30] \<and>
   replacements (effects
     (txMonitor plainHelpers [nodeSpeedUpSeen, nodeSecondSpeedUp, nodeSpeedUpSeen] tracking1)) = [tx2, tx3] \<and>
   sorted_wrt (\<lambda>a b. toBN plainHelpers (the (gasPrice a)) \<le> toBN plainHelpers (the (gasPrice b)))
     (filter (\<lambda>q. nonce q \<noteq> None \<and> gasPrice q \<noteq> None)
       (map fst (txMonitor plainHelpers [nodeSpeedUpSeen, nodeSecondSpeedUp, nodeSpeedUpSeen] tracking1))) \<and>
   sorted_wrt (\<lambda>a b. toBN plainHelpers (tx_gasPrice a) < toBN plainHelpers (tx_gasPrice b))
     (replacements (effects
       (txMonitor plainHelpers [nodeSpeedUpSeen, nodeSecondSpeedUp, nodeSpeedUpSeen] tracking1))) \<and>
   toBN plainHelpers (tx_gasPrice tx1) \<le> toBN plainHelpers ''10'' \<and>
   replacementTransaction plainHelpers (sender tracking1) (hash tracking1) (data tracking1) 5 ''10''
     [tx1] \<noteq> Some tx1 \<and>
   snd (txRound plainHelpers nodeSpeedUpSeen tracking1) = Some tracking2 \<and>
   toBN plainHelpers ''10'' < toBN plainHelpers (tx_gasPrice tx2)"
proof -
  note T = tracked_fee_monotone
    [of plainHelpers "[nodeSpeedUpSeen, nodeSecondSpeedUp, nodeSpeedUpSeen]" tracking1
        5 "''10''" tx1 "[tx1]" nodeSpeedUpSeen]
  have known: "nonce tracking1 = Some 5 \<and> gasPrice tracking1 = Some ''10''"
    by (simp add: tracking1_def)
  have le: "toBN plainHelpers (tx_gasPrice tx1) \<le> toBN plainHelpers ''10''"
    by (simp add: tx1_def)
  have f1: "nonce tracking1 = Some 5" and f2: "gasPrice tracking1 = Some ''10''"
    using known by simp_all
  have f3: "map fst (txMonitor plainHelpers [nodeSpeedUpSeen, nodeSecondSpeedUp, nodeSpeedUpSeen] tracking1) =
     [tracking1, tracking2, tracking3]"
    by (simp add: session_two_speed_ups)
  have f4: "map (\<lambda>q. toBN plainHelpers (the (gasPrice q))) [tracking1, tracking2, tracking3] = [10, 20, 30]"
    by (simp add: tracking1_def tracking2_def tracking3_def decimalBN_values)
  have f5: "replacements (effects
     (txMonitor plainHelpers [nodeSpeedUpSeen, nodeSecondSpeedUp, nodeSpeedUpSeen] tracking1)) = [tx2, tx3]"
    by (simp add: session_two_speed_ups effects_def)
  note f6 = T [THEN conjunct1]
  note f7 = T [THEN conjunct2, THEN conjunct1]
  note rest = T [THEN conjunct2, THEN conjunct2, THEN mp, OF known]
  note f9 = rest [THEN conjunct2, THEN conjunct1, THEN mp, OF le]
  have f10: "snd (txRound plainHelpers nodeSpeedUpSeen tracking1) = Some tracking2"
    by (simp add: round_nodeSpeedUpSeen)
  have f11: "toBN plainHelpers ''10'' < toBN plainHelpers (tx_gasPrice tx2)"
    by (simp add: tx2_def decimalBN_values)
  from f1 f2 f3 f4 f5 f6 f7 le f9 f10 f11 show ?thesis by (intro conjI)
qed

text \<open>
  Claim C5 says that \<^verbatim>\<open>cb\<close> is called with the receipt of the tracked hash in the
  round in which the node first returns it, when no replacement ever appears. The code
  does not do that. Here the tracked transaction \<^verbatim>\<open>h1\<close> is pending in the first round
  and mined from the second round on, with its receipt served and the transaction itself
  in the latest block: over any number \<open>k\<close> of further rounds no replacement is
  found, \<^verbatim>\<open>cb\<close> is never called, and every round runs.
\<close>

theorem tracked_receipt_never_delivered:
  "getTransactionReceipt nodeOriginalMined (hash tracking1) = Some receipt1 \<and>
   replacementTransaction plainHelpers (sender tracking1) (hash tracking1) (data tracking1) 5 ''10''
     (transactions (getBlockLatest nodeOriginalMined)) = None \<and>
   callbacks (effects (txMonitor plainHelpers (nodePending # replicate k nodeOriginalMined) tracking1)) = [] \<and>
   length (txMonitor plainHelpers (nodePending # replicate k nodeOriginalMined) tracking1) = Suc k"
proof -
  have "getTransactionReceipt nodeOriginalMined (hash tracking1) = Some receipt1"
    by (simp add: nodeOriginalMined_def tracking1_def)
  moreover have "replacementTransaction plainHelpers (sender tracking1) (hash tracking1)
      (data tracking1) 5 ''10'' (transactions (getBlockLatest nodeOriginalMined)) = None"
    by (simp add: nodeOriginalMined_def tracking1_def no_candidate_tx1)
  moreover have "callbacks (effects
      (txMonitor plainHelpers (nodePending # replicate k nodeOriginalMined) tracking1)) = []"
    using session_original_mined [of k]
    by (simp add: effects_txMonitor_Cons round_nodePending_tracking1)
  moreover have "length (txMonitor plainHelpers (nodePending # replicate k nodeOriginalMined) tracking1) = Suc k"
    using session_original_mined [of k]
    by (simp add: txMonitor_Cons round_nodePending_tracking1)
  ultimately show ?thesis by (intro conjI)
qed

text \<open>
  Claim C6. The receipt looked up for the tracked hash (line 52) is printed and nothing
  else: replace what the node returns for the tracked hash by any value \<open>v\<close>, and the
  round makes the same recursive call or none, calls \<^verbatim>\<open>cb\<close> with the same receipt or
  not at all, and does the same things but for printing \<open>v\<close>. A round calls \<^verbatim>\<open>cb\<close>
  only for a replacement found in the latest block. Both receipt lookups of a round go
  to the same node; they are for different hashes, a replacement's hash not being
  \<^verbatim>\<open>sameString\<close> with the tracked one, which is assumed to be \<^verbatim>\<open>sameString\<close> with
  itself.
\<close>

theorem tracked_receipt_lookup_only_logged:
  assumes "sameString h (hash p) (hash p)"
  shows "snd (txRound h (w\<lparr>getTransactionReceipt := (getTransactionReceipt w)(hash p := v)\<rparr>) p) =
           snd (txRound h w p) \<and>
         callbacks (fst (txRound h (w\<lparr>getTransactionReceipt := (getTransactionReceipt w)(hash p := v)\<rparr>) p)) =
           callbacks (fst (txRound h w p)) \<and>
         (nonce p = None \<or> gasPrice p = None \<longrightarrow>
            txRound h (w\<lparr>getTransactionReceipt := (getTransactionReceipt w)(hash p := v)\<rparr>) p =
              txRound h w p) \<and>
         (nonce p \<noteq> None \<and> gasPrice p \<noteq> None \<longrightarrow>
            (\<exists>es. fst (txRound h w p) = Info_receipt (getTransactionReceipt w (hash p)) # es \<and>
                  fst (txRound h (w\<lparr>getTransactionReceipt := (getTransactionReceipt w)(hash p := v)\<rparr>) p) =
                    Info_receipt v # es)) \<and>
         (callbacks (fst (txRound h w p)) \<noteq> [] \<longrightarrow>
            (\<exists>n g t r. nonce p = Some n \<and> gasPrice p = Some g \<and>
               replacementTransaction h (sender p) (hash p) (data p) n g
                 (transactions (getBlockLatest w)) = Some t \<and>
               getTransactionReceipt w (tx_hash t) = Some r \<and>
               callbacks (fst (txRound h w p)) = [r]))"
proof -
  let ?w = "w\<lparr>getTransactionReceipt := (getTransactionReceipt w)(hash p := v)\<rparr>"
  have blk: "getBlockLatest ?w = getBlockLatest w" by simp
  have gtx: "getTransaction ?w = getTransaction w" by simp
  have side: "getTransactionReceipt ?w (hash p) = v" by simp
  have other: "\<And>x. x \<noteq> hash p \<Longrightarrow> getTransactionReceipt ?w x = getTransactionReceipt w x"
    by simp
  have path: "callbacks (fst (txRound h w p)) \<noteq> [] \<longrightarrow>
            (\<exists>n g t r. nonce p = Some n \<and> gasPrice p = Some g \<and>
               replacementTransaction h (sender p) (hash p) (data p) n g
                 (transactions (getBlockLatest w)) = Some t \<and>
               getTransactionReceipt w (tx_hash t) = Some r \<and>
               callbacks (fst (txRound h w p)) = [r])"
    using txRound_callbacks_only_mined [of h w p] by blast
  show ?thesis
  proof (cases rule: txRound_cases [where p = p and w = w and h = h])
    case not_indexed
    have "txRound h ?w p = txRound h w p"
      using txRound_not_indexed [OF not_indexed(1), of ?w h] txRound_not_indexed [OF not_indexed, of h]
        not_indexed(2) by (simp only: gtx)
    with not_indexed(1) path show ?thesis by auto
  next
    case (indexed t)
    have "txRound h ?w p = txRound h w p"
      using txRound_indexed [OF indexed(1), of ?w t h] txRound_indexed [OF indexed, of h]
        indexed(2) by (simp only: gtx)
    with indexed(1) path show ?thesis by auto
  next
    case (no_candidate n g)
    from no_candidate(3) have c: "replacementTransaction h (sender p) (hash p) (data p) n g
        (transactions (getBlockLatest ?w)) = None"
      by (simp only: blk)
    have new: "txRound h ?w p =
        ([Info_receipt v, Info_latestBlock (getBlockLatest w), Info_replacementTransaction None], Some p)"
      using txRound_no_candidate [OF no_candidate(1,2) c] by (simp only: blk side)
    have old: "txRound h w p =
        ([Info_receipt (getTransactionReceipt w (hash p)), Info_latestBlock (getBlockLatest w),
          Info_replacementTransaction None], Some p)"
      using no_candidate by (rule txRound_no_candidate)
    from no_candidate(1,2) path show ?thesis unfolding new old by simp
  next
    case (pending n g t)
    from pending(3) have c: "replacementTransaction h (sender p) (hash p) (data p) n g
        (transactions (getBlockLatest ?w)) = Some t"
      by (simp only: blk)
    from replacement_other_hash [OF assms pending(3)] pending(4)
    have r: "getTransactionReceipt ?w (tx_hash t) = None" by simp
    have new: "txRound h ?w p =
        ([Info_receipt v, Info_latestBlock (getBlockLatest w), Info_replacementTransaction (Some t)],
         Some \<lparr>sender = sender p, hash = tx_hash t, data = tx_input t,
               nonce = Some n, gasPrice = Some (tx_gasPrice t)\<rparr>)"
      using txRound_candidate_pending [OF pending(1,2) c r] by (simp only: blk side)
    have old: "txRound h w p =
        ([Info_receipt (getTransactionReceipt w (hash p)), Info_latestBlock (getBlockLatest w),
          Info_replacementTransaction (Some t)],
         Some \<lparr>sender = sender p, hash = tx_hash t, data = tx_input t,
               nonce = Some n, gasPrice = Some (tx_gasPrice t)\<rparr>)"
      using pending by (rule txRound_candidate_pending)
    from pending(1,2) path show ?thesis unfolding new old by simp
  next
    case (mined n g t r)
    from mined(3) have c: "replacementTransaction h (sender p) (hash p) (data p) n g
        (transactions (getBlockLatest ?w)) = Some t"
      by (simp only: blk)
    from replacement_other_hash [OF assms mined(3)] mined(4)
    have r: "getTransactionReceipt ?w (tx_hash t) = Some r" by simp
    have new: "txRound h ?w p =
        ([Info_receipt v, Info_latestBlock (getBlockLatest w), Info_replacementTransaction (Some t),
          Info_transactionReceipt r, Cb r], None)"
      using txRound_candidate_mined [OF mined(1,2) c r] by (simp only: blk side)
    have old: "txRound h w p =
        ([Info_receipt (getTransactionReceipt w (hash p)), Info_latestBlock (getBlockLatest w),
          Info_replacementTransaction (Some t), Info_transactionReceipt r, Cb r], None)"
      using mined by (rule txRound_candidate_mined)
    from mined path show ?thesis unfolding new old by simp
  qed
qed

theorem tracked_receipt_lookup_only_logged_witness:
  "sameString plainHelpers (hash tracking1) (hash tracking1) \<and>
   getTransactionReceipt nodePending (hash tracking1) = None \<and>
   snd (txRound plainHelpers nodePending tracking1) = Some tracking1 \<and>
   callbacks (fst (txRound plainHelpers nodePending tracking1)) = [] \<and>
   getTransactionReceipt
     (nodePending\<lparr>getTransactionReceipt := (getTransactionReceipt nodePending)(hash tracking1 := Some receipt1)\<rparr>)
     (hash tracking1) = Some receipt1 \<and>
   snd (txRound plainHelpers
     (nodePending\<lparr>getTransactionReceipt := (getTransactionReceipt nodePending)(hash tracking1 := Some receipt1)\<rparr>)
     tracking1) = Some tracking1 \<and>
   callbacks (fst (txRound plainHelpers
     (nodePending\<lparr>getTransactionReceipt := (getTransactionReceipt nodePending)(hash tracking1 := Some receipt1)\<rparr>)
     tracking1)) = []"
proof -
  have refl: "sameString plainHelpers (hash tracking1) (hash tracking1)" by simp
  note T = tracked_receipt_lookup_only_logged [OF refl, of nodePending "Some receipt1"]
  have side: "getTransactionReceipt nodePending (hash tracking1) = None"
    by (simp add: nodePending_def)
  have old1: "snd (txRound plainHelpers nodePending tracking1) = Some tracking1"
    by (simp add: round_nodePending_tracking1)
  have old2: "callbacks (fst (txRound plainHelpers nodePending tracking1)) = []"
    by (simp add: round_nodePending_tracking1)
  have now: "getTransactionReceipt
     (nodePending\<lparr>getTransactionReceipt := (getTransactionReceipt nodePending)(hash tracking1 := Some receipt1)\<rparr>)
     (hash tracking1) = Some receipt1"
    by simp
  have new1: "snd (txRound plainHelpers
     (nodePending\<lparr>getTransactionReceipt := (getTransactionReceipt nodePending)(hash tracking1 := Some receipt1)\<rparr>)
     tracking1) = Some tracking1"
    using T [THEN conjunct1] unfolding old1 .
  have new2: "callbacks (fst (txRound plainHelpers
     (nodePending\<lparr>getTransactionReceipt := (getTransactionReceipt nodePending)(hash tracking1 := Some receipt1)\<rparr>)
     tracking1)) = []"
    using T [THEN conjunct2, THEN conjunct1] unfolding old2 .
  from refl side old1 old2 now new1 new2 show ?thesis by (intro conjI)
qed

text \<open>
  Claim C7. While nonce or gasPrice is unknown, a round looks the tracked hash up: on
  \<^verbatim>\<open>null\<close> the recursive call has both unset, on a transaction it has that
  transaction's nonce and gasPrice. If the lookup gives \<^verbatim>\<open>null\<close> in the first round
  and a transaction with nonce \<open>N\<close> and fee \<open>F\<close> in the second, the session goes on
  from the third round with exactly \<open>N\<close> and \<open>F\<close>, and every later round runs with
  nonce \<open>N\<close>. From parameters with nonce \<open>n\<close> and gasPrice known, every round of the
  session runs with nonce \<open>n\<close> and passes \<open>n\<close> to the recursive call, and a round
  changes the gasPrice only to that of a replacement with a strictly greater fee.
\<close>

theorem nonce_discovery_stable:
  "(nonce p = None \<or> gasPrice p = None \<longrightarrow>
      (getTransaction w (hash p) = None \<longrightarrow>
         snd (txRound h w p) =
           Some \<lparr>sender = sender p, hash = hash p, data = data p, nonce = None, gasPrice = None\<rparr>) \<and>
      (\<forall>t. getTransaction w (hash p) = Some t \<longrightarrow>
         snd (txRound h w p) =
           Some \<lparr>sender = sender p, hash = hash p, data = data p,
                 nonce = Some (tx_nonce t), gasPrice = Some (tx_gasPrice t)\<rparr>)) \<and>
   ((nonce p = None \<or> gasPrice p = None) \<and>
    getTransaction w1 (hash p) = None \<and> getTransaction w2 (hash p) = Some t \<longrightarrow>
      map fst (take 2 (txMonitor h (w1 # w2 # ws) p)) =
        [p, \<lparr>sender = sender p, hash = hash p, data = data p, nonce = None, gasPrice = None\<rparr>] \<and>
      drop 2 (txMonitor h (w1 # w2 # ws) p) =
        txMonitor h ws \<lparr>sender = sender p, hash = hash p, data = data p,
                         nonce = Some (tx_nonce t), gasPrice = Some (tx_gasPrice t)\<rparr> \<and>
      (\<forall>r \<in> set (drop 2 (txMonitor h (w1 # w2 # ws) p)). nonce (fst r) = Some (tx_nonce t))) \<and>
   (nonce q = Some n \<and> gasPrice q = Some g \<longrightarrow>
      (\<forall>r \<in> set (txMonitor h ws q).
         nonce (fst r) = Some n \<and> (\<forall>q'. snd (snd r) = Some q' \<longrightarrow> nonce q' = Some n)) \<and>
      (\<forall>q'. snd (txRound h w' q) = Some q' \<longrightarrow>
         nonce q' = Some n \<and>
         (gasPrice q' = Some g \<or>
          (\<exists>u. replacementTransaction h (sender q) (hash q) (data q) n g
                  (transactions (getBlockLatest w')) = Some u \<and>
               gasPrice q' = Some (tx_gasPrice u) \<and>
               toBN h g < toBN h (tx_gasPrice u)))))"
  (is "(?unknown \<longrightarrow> ?retry \<and> ?learn) \<and> (?twice \<longrightarrow> ?first \<and> ?later \<and> ?kept) \<and>
       (?known \<longrightarrow> ?session \<and> ?step)")
proof -
  have discovery: "?unknown \<longrightarrow> ?retry \<and> ?learn"
  proof
    assume u: ?unknown
    have ?retry using txRound_not_indexed [OF u, of w h] by simp
    moreover have ?learn using txRound_indexed [OF u, of w _ h] by simp
    ultimately show "?retry \<and> ?learn" ..
  qed
  have scenario: "?twice \<longrightarrow> ?first \<and> ?later \<and> ?kept"
  proof
    assume tw: ?twice
    let ?p2 = "\<lparr>sender = sender p, hash = hash p, data = data p,
                 nonce = Some (tx_nonce t), gasPrice = Some (tx_gasPrice t)\<rparr>"
    from tw have run: "txMonitor h (w1 # w2 # ws) p =
           (p, [], Some \<lparr>sender = sender p, hash = hash p, data = data p,
                         nonce = None, gasPrice = None\<rparr>) #
           (\<lparr>sender = sender p, hash = hash p, data = data p, nonce = None, gasPrice = None\<rparr>,
            [Info_transaction t], Some ?p2) #
           txMonitor h ws ?p2"
      by (intro txMonitor_not_indexed_then_indexed) simp_all
    have first: ?first unfolding run by simp
    have later: ?later unfolding run by simp
    have "\<forall>r \<in> set (txMonitor h ws ?p2). nonce (fst r) = Some (tx_nonce t)"
      using txMonitor_nonce_stable [of ?p2 "tx_nonce t" "tx_gasPrice t" h ws] by simp
    then have kept: ?kept unfolding later .
    from first later kept show "?first \<and> ?later \<and> ?kept" by (intro conjI)
  qed
  have polling: "?known \<longrightarrow> ?session \<and> ?step"
  proof
    assume k: ?known
    then have n: "nonce q = Some n" and g: "gasPrice q = Some g" by simp_all
    have session: ?session by (rule txMonitor_nonce_stable [OF n g])
    have step: ?step
    proof (intro allI impI)
      fix q' assume nx: "snd (txRound h w' q) = Some q'"
      from txRound_polling_step [OF n g nx]
      show "nonce q' = Some n \<and>
         (gasPrice q' = Some g \<or>
          (\<exists>u. replacementTransaction h (sender q) (hash q) (data q) n g
                  (transactions (getBlockLatest w')) = Some u \<and>
               gasPrice q' = Some (tx_gasPrice u) \<and>
               toBN h g < toBN h (tx_gasPrice u)))"
      proof (elim disjE exE conjE)
        assume "q' = q"
        with n g show ?thesis by simp
      next
        fix u
        assume "replacementTransaction h (sender q) (hash q) (data q) n g
                  (transactions (getBlockLatest w')) = Some u"
          and "q' = \<lparr>sender = sender q, hash = tx_hash u, data = tx_input u,
                      nonce = Some n, gasPrice = Some (tx_gasPrice u)\<rparr>"
          and "toBN h g < toBN h (tx_gasPrice u)"
        then show ?thesis by simp
      qed
    qed
    from session step show "?session \<and> ?step" ..
  qed
  from discovery scenario polling show ?thesis by (intro conjI)
qed

theorem nonce_discovery_stable_witness:
  "(nonce intent1 = None \<or> gasPrice intent1 = None) \<and>
   getTransaction nodeEmpty (hash intent1) = None \<and>
   snd (txRound plainHelpers nodeEmpty intent1) = Some intent1 \<and>
   getTransaction nodePending (hash intent1) = Some tx1 \<and>
   snd (txRound plainHelpers nodePending intent1) = Some tracking1 \<and>
   nonce tracking1 = Some (tx_nonce tx1) \<and> gasPrice tracking1 = Some (tx_gasPrice tx1) \<and>
   drop 2 (txMonitor plainHelpers (nodeEmpty # nodePending # [nodeSpeedUpSeen, nodeSecondSpeedUp]) intent1) =
     txMonitor plainHelpers [nodeSpeedUpSeen, nodeSecondSpeedUp] tracking1 \<and>
   map (\<lambda>r. nonce (fst r))
     (txMonitor plainHelpers (nodeEmpty # nodePending # [nodeSpeedUpSeen, nodeSecondSpeedUp]) intent1) =
     [None, None, Some 5, Some 5] \<and>
   nonce tracking1 = Some 5 \<and> gasPrice tracking1 = Some ''10'' \<and>
   snd (txRound plainHelpers nodeSpeedUpSeen tracking1) = Some tracking2 \<and>
   nonce tracking2 = Some 5 \<and> gasPrice tracking2 = Some (tx_gasPrice tx2) \<and>
   toBN plainHelpers ''10'' < toBN plainHelpers (tx_gasPrice tx2)"
proof -
  note A = nonce_discovery_stable
    [of intent1 nodeEmpty plainHelpers nodeEmpty nodePending tx1 "[nodeSpeedUpSeen, nodeSecondSpeedUp]"
        tracking1 5 "''10''" nodeSpeedUpSeen]
  note B = nonce_discovery_stable
    [of intent1 nodePending plainHelpers nodeEmpty nodePending tx1 "[nodeSpeedUpSeen, nodeSecondSpeedUp]"
        tracking1 5 "''10''" nodeSpeedUpSeen]
  have unknown: "nonce intent1 = None \<or> gasPrice intent1 = None"
    by (simp add: intent1_def)
  have none1: "getTransaction nodeEmpty (hash intent1) = None"
    by (simp add: nodeEmpty_def)
  have some2: "getTransaction nodePending (hash intent1) = Some tx1"
    by (simp add: nodePending_def intent1_def)
  have p0: "\<lparr>sender = sender intent1, hash = hash intent1, data = data intent1,
              nonce = None, gasPrice = None\<rparr> = intent1"
    by (simp add: intent1_def)
  have p2: "\<lparr>sender = sender intent1, hash = hash intent1, data = data intent1,
              nonce = Some (tx_nonce tx1), gasPrice = Some (tx_gasPrice tx1)\<rparr> = tracking1"
    by (simp add: intent1_def tracking1_def tx1_def)
  have retry: "snd (txRound plainHelpers nodeEmpty intent1) = Some intent1"
    using A [THEN conjunct1, THEN mp, OF unknown, THEN conjunct1, THEN mp, OF none1]
    unfolding p0 .
  have learn: "snd (txRound plainHelpers nodePending intent1) = Some tracking1"
    using B [THEN conjunct1, THEN mp, OF unknown, THEN conjunct2, THEN spec, THEN mp, OF some2]
    unfolding p2 .
  have nf: "nonce tracking1 = Some (tx_nonce tx1)" "gasPrice tracking1 = Some (tx_gasPrice tx1)"
    by (simp_all add: tracking1_def tx1_def)
  have twice: "(nonce intent1 = None \<or> gasPrice intent1 = None) \<and>
      getTransaction nodeEmpty (hash intent1) = None \<and> getTransaction nodePending (hash intent1) = Some tx1"
    using unknown none1 some2 by (intro conjI)
  note sc = A [THEN conjunct2, THEN conjunct1, THEN mp, OF twice]
  have later: "drop 2 (txMonitor plainHelpers
        (nodeEmpty # nodePending # [nodeSpeedUpSeen, nodeSecondSpeedUp]) intent1) =
      txMonitor plainHelpers [nodeSpeedUpSeen, nodeSecondSpeedUp] tracking1"
    using sc [THEN conjunct2, THEN conjunct1] unfolding p2 .
  have run: "txMonitor plainHelpers (nodeEmpty # nodePending # [nodeSpeedUpSeen, nodeSecondSpeedUp]) intent1 =
      [(intent1, [], Some intent1),
       (intent1, [Info_transaction tx1], Some tracking1),
       (tracking1,
        [Info_receipt None, Info_latestBlock \<lparr>block_number = 7, transactions = [tx2]\<rparr>,
         Info_replacementTransaction (Some tx2)], Some tracking2),
       (tracking2,
        [Info_receipt None, Info_latestBlock \<lparr>block_number = 8, transactions = [tx3]\<rparr>,
         Info_replacementTransaction (Some tx3)], Some tracking3)]"
    by (simp add: txMonitor_Cons round_nodeEmpty round_nodePending round_nodeSpeedUpSeen
          round_nodeSecondSpeedUp)
  have nonces: "map (\<lambda>r. nonce (fst r))
      (txMonitor plainHelpers (nodeEmpty # nodePending # [nodeSpeedUpSeen, nodeSecondSpeedUp]) intent1) =
      [None, None, Some 5, Some 5]"
    unfolding run by (simp add: intent1_def tracking1_def tracking2_def)
  have known: "nonce tracking1 = Some 5 \<and> gasPrice tracking1 = Some ''10''"
    by (simp add: tracking1_def)
  note po = A [THEN conjunct2, THEN conjunct2, THEN mp, OF known]
  have nx: "snd (txRound plainHelpers nodeSpeedUpSeen tracking1) = Some tracking2"
    by (simp add: round_nodeSpeedUpSeen)
  note st = po [THEN conjunct2, THEN spec, THEN mp, OF nx]
  have g2: "gasPrice tracking2 = Some (tx_gasPrice tx2)"
    by (simp add: tracking2_def tx2_def)
  have lt: "toBN plainHelpers ''10'' < toBN plainHelpers (tx_gasPrice tx2)"
    by (simp add: tx2_def decimalBN_values)
  from unknown none1 retry some2 learn nf later nonces known [THEN conjunct1] known [THEN conjunct2]
    nx st [THEN conjunct1] g2 lt
  show ?thesis by (intro conjI)
qed

text \<open>
  Claim C8. A call that fails reaches the caller in no way: the round calls
  \<^verbatim>\<open>cb\<close> for it neither then nor later, since an awaited call that rejects ends the
  session. A lookup that returns \<^verbatim>\<open>null\<close> is not a failure: the round makes its
  recursive call and does not call \<^verbatim>\<open>cb\<close>. After a \<^verbatim>\<open>null\<close> transaction lookup
  the call has the same sender, hash and data, with nonce and gasPrice unset; these are
  the same parameters only when both were unset before. With no replacement in the
  latest block the call has the same parameters, whatever the receipt lookup for the
  tracked hash returns. After a \<^verbatim>\<open>null\<close> receipt for a replacement the call tracks
  the replacement, with the same sender and nonce. A round makes no recursive call only
  when it calls \<^verbatim>\<open>cb\<close> or when a call was rejected, and \<^verbatim>\<open>cb\<close> is called at most
  once in a session. Where no call fails, the round is the one of \<open>txRound\<close>.
\<close>

theorem null_result_continues:
  "txRoundRpc h (resolved w0) p = txRound h w0 p \<and>
   (nonce p = None \<or> gasPrice p = None \<longrightarrow>
      (rpc_getTransaction w (hash p) = Resolved None \<longrightarrow>
         txRoundRpc h w p =
           ([], Some \<lparr>sender = sender p, hash = hash p, data = data p,
                      nonce = None, gasPrice = None\<rparr>)) \<and>
      (rpc_getTransaction w (hash p) = Rejected \<longrightarrow> txRoundRpc h w p = ([], None))) \<and>
   (nonce p = None \<and> gasPrice p = None \<and> rpc_getTransaction w (hash p) = Resolved None \<longrightarrow>
      txRoundRpc h w p = ([], Some p)) \<and>
   (nonce p = Some n \<and> gasPrice p = Some g \<longrightarrow>
      (rpc_getBlockLatest w = Rejected \<longrightarrow>
         snd (txRoundRpc h w p) = None \<and> callbacks (fst (txRoundRpc h w p)) = []) \<and>
      (\<forall>b. rpc_getBlockLatest w = Resolved b \<longrightarrow>
         (replacementTransaction h (sender p) (hash p) (data p) n g (transactions b) = None \<longrightarrow>
            snd (txRoundRpc h w p) = Some p \<and> callbacks (fst (txRoundRpc h w p)) = []) \<and>
         (\<forall>t. replacementTransaction h (sender p) (hash p) (data p) n g (transactions b) = Some t \<longrightarrow>
            (rpc_getTransactionReceipt w (tx_hash t) = Resolved None \<longrightarrow>
               snd (txRoundRpc h w p) =
                 Some \<lparr>sender = sender p, hash = tx_hash t, data = tx_input t,
                       nonce = Some n, gasPrice = Some (tx_gasPrice t)\<rparr> \<and>
               callbacks (fst (txRoundRpc h w p)) = []) \<and>
            (rpc_getTransactionReceipt w (tx_hash t) = Rejected \<longrightarrow>
               snd (txRoundRpc h w p) = None \<and> callbacks (fst (txRoundRpc h w p)) = []) \<and>
            (\<forall>r. rpc_getTransactionReceipt w (tx_hash t) = Resolved (Some r) \<longrightarrow>
               snd (txRoundRpc h w p) = None \<and> callbacks (fst (txRoundRpc h w p)) = [r])))) \<and>
   (snd (txRoundRpc h w p) = None \<longrightarrow>
      (\<exists>r. callbacks (fst (txRoundRpc h w p)) = [r]) \<or>
      rpc_getTransaction w (hash p) = Rejected \<or> rpc_getBlockLatest w = Rejected \<or>
      (\<exists>x. rpc_getTransactionReceipt w x = Rejected)) \<and>
   length (callbacks (effects (txMonitorRpc h ws p))) \<le> 1"
  (is "?agree \<and> (?unknown \<longrightarrow> ?null \<and> ?rejected) \<and> ?same \<and> (?known \<longrightarrow> ?block \<and> ?scan) \<and>
       ?stop \<and> ?once")
proof -
  have agree: ?agree by (rule txRoundRpc_resolved)
  have discovery: "?unknown \<longrightarrow> ?null \<and> ?rejected"
    using txRoundRpc_lookup_null [of p w h] txRoundRpc_lookup_rejected [of p w h] by blast
  have same: ?same
  proof
    assume a: "nonce p = None \<and> gasPrice p = None \<and> rpc_getTransaction w (hash p) = Resolved None"
    then have "txRoundRpc h w p =
        ([], Some \<lparr>sender = sender p, hash = hash p, data = data p, nonce = None, gasPrice = None\<rparr>)"
      by (intro txRoundRpc_lookup_null) simp_all
    moreover from a have "\<lparr>sender = sender p, hash = hash p, data = data p,
        nonce = None, gasPrice = None\<rparr> = p"
      by simp
    ultimately show "txRoundRpc h w p = ([], Some p)" by simp
  qed
  have polling: "?known \<longrightarrow> ?block \<and> ?scan"
  proof
    assume k: ?known
    then have n: "nonce p = Some n" and g: "gasPrice p = Some g" by simp_all
    have block: ?block
      using txRoundRpc_block_rejected [OF n g] by blast
    have scan: ?scan
    proof (intro allI impI conjI)
      fix b assume b: "rpc_getBlockLatest w = Resolved b"
      {
        assume "replacementTransaction h (sender p) (hash p) (data p) n g (transactions b) = None"
        from txRoundRpc_no_candidate [OF n g b this]
        show "snd (txRoundRpc h w p) = Some p" and "callbacks (fst (txRoundRpc h w p)) = []"
          by simp_all
      }
      fix t assume t: "replacementTransaction h (sender p) (hash p) (data p) n g (transactions b) = Some t"
      {
        assume "rpc_getTransactionReceipt w (tx_hash t) = Resolved None"
        from txRoundRpc_receipt_null [OF n g b t this]
        show "snd (txRoundRpc h w p) =
                 Some \<lparr>sender = sender p, hash = tx_hash t, data = tx_input t,
                       nonce = Some n, gasPrice = Some (tx_gasPrice t)\<rparr>"
          and "callbacks (fst (txRoundRpc h w p)) = []"
          by simp_all
      }
      {
        assume "rpc_getTransactionReceipt w (tx_hash t) = Rejected"
        from txRoundRpc_receipt_rejected [OF n g b t this]
        show "snd (txRoundRpc h w p) = None" and "callbacks (fst (txRoundRpc h w p)) = []"
          by simp_all
      }
      fix r assume "rpc_getTransactionReceipt w (tx_hash t) = Resolved (Some r)"
      from txRoundRpc_receipt_found [OF n g b t this]
      show "snd (txRoundRpc h w p) = None" and "callbacks (fst (txRoundRpc h w p)) = [r]"
        by simp_all
    qed
    from block scan show "?block \<and> ?scan" ..
  qed
  have stop: ?stop
    using txRoundRpc_stop [of h w p] by blast
  have once: ?once by (rule txMonitorRpc_callbacks_le)
  from agree discovery same polling stop once show ?thesis by (intro conjI)
qed

text \<open>
  The parameters are not always unchanged after a \<^verbatim>\<open>null\<close> lookup: called with nonce 9
  and no gasPrice, the monitor goes on with the nonce unset when the transaction is not
  found.
\<close>

theorem null_lookup_state_counterexample:
  "nonce intentNonceOnly = Some 9 \<and> gasPrice intentNonceOnly = None \<and>
   getTransaction nodeEmpty (hash intentNonceOnly) = None \<and>
   txRound plainHelpers nodeEmpty intentNonceOnly = ([], Some intent1) \<and>
   txRoundRpc plainHelpers (resolved nodeEmpty) intentNonceOnly = ([], Some intent1) \<and>
   nonce intent1 = None \<and> intent1 \<noteq> intentNonceOnly"
proof -
  have r: "txRound plainHelpers nodeEmpty intentNonceOnly = ([], Some intent1)"
    by (simp add: txRound_def nodeEmpty_def intentNonceOnly_def intent1_def)
  have "nonce intentNonceOnly = Some 9" and "gasPrice intentNonceOnly = None"
    by (simp_all add: intentNonceOnly_def)
  moreover have "getTransaction nodeEmpty (hash intentNonceOnly) = None"
    by (simp add: nodeEmpty_def)
  moreover note r
  moreover have "txRoundRpc plainHelpers (resolved nodeEmpty) intentNonceOnly = ([], Some intent1)"
    by (simp add: txRoundRpc_resolved r)
  moreover have "nonce intent1 = None" by (simp add: intent1_def)
  moreover have "intent1 \<noteq> intentNonceOnly"
    by (simp add: intent1_def intentNonceOnly_def)
  ultimately show ?thesis by (intro conjI)
qed

theorem null_result_continues_witness:
  "(nonce intentNonceOnly = None \<or> gasPrice intentNonceOnly = None) \<and>
   rpc_getTransaction (resolved nodeEmpty) (hash intentNonceOnly) = Resolved None \<and>
   txRoundRpc plainHelpers (resolved nodeEmpty) intentNonceOnly = ([], Some intent1) \<and>
   (nonce intent1 = None \<or> gasPrice intent1 = None) \<and>
   rpc_getTransaction nodeDown (hash intent1) = Rejected \<and>
   txRoundRpc plainHelpers nodeDown intent1 = ([], None) \<and>
   nonce intent1 = None \<and> gasPrice intent1 = None \<and>
   rpc_getTransaction (resolved nodeEmpty) (hash intent1) = Resolved None \<and>
   txRoundRpc plainHelpers (resolved nodeEmpty) intent1 = ([], Some intent1) \<and>
   nonce tracking1 = Some 5 \<and> gasPrice tracking1 = Some ''10'' \<and>
   rpc_getBlockLatest nodeDown = Rejected \<and>
   snd (txRoundRpc plainHelpers nodeDown tracking1) = None \<and>
   callbacks (fst (txRoundRpc plainHelpers nodeDown tracking1)) = [] \<and>
   rpc_getTransactionReceipt (resolved nodePending) (hash tracking1) = Resolved None \<and>
   snd (txRoundRpc plainHelpers (resolved nodePending) tracking1) = Some tracking1 \<and>
   callbacks (fst (txRoundRpc plainHelpers (resolved nodePending) tracking1)) = [] \<and>
   rpc_getTransactionReceipt (resolved nodeSpeedUpSeen) (tx_hash tx2) = Resolved None \<and>
   snd (txRoundRpc plainHelpers (resolved nodeSpeedUpSeen) tracking1) = Some tracking2 \<and>
   callbacks (fst (txRoundRpc plainHelpers (resolved nodeSpeedUpSeen) tracking1)) = [] \<and>
   rpc_getTransactionReceipt nodeReceiptsDown (tx_hash tx2) = Rejected \<and>
   snd (txRoundRpc plainHelpers nodeReceiptsDown tracking1) = None \<and>
   callbacks (fst (txRoundRpc plainHelpers nodeReceiptsDown tracking1)) = [] \<and>
   rpc_getTransactionReceipt (resolved nodeSpeedUpMined) (tx_hash tx2) = Resolved (Some receipt2) \<and>
   snd (txRoundRpc plainHelpers (resolved nodeSpeedUpMined) tracking1) = None \<and>
   callbacks (fst (txRoundRpc plainHelpers (resolved nodeSpeedUpMined) tracking1)) = [receipt2] \<and>
   length (callbacks (effects (txMonitorRpc plainHelpers
     [resolved nodeEmpty, resolved nodePending, nodeReceiptsDown, resolved nodeSpeedUpMined] intent1))) \<le> 1"
proof -
  note T = null_result_continues [where h = plainHelpers]
  have u1: "nonce intentNonceOnly = None \<or> gasPrice intentNonceOnly = None"
    by (simp add: intentNonceOnly_def)
  have l1: "rpc_getTransaction (resolved nodeEmpty) (hash intentNonceOnly) = Resolved None"
    by (simp add: resolved_def nodeEmpty_def)
  have p1: "\<lparr>sender = sender intentNonceOnly, hash = hash intentNonceOnly, data = data intentNonceOnly,
              nonce = None, gasPrice = None\<rparr> = intent1"
    by (simp add: intentNonceOnly_def intent1_def)
  have r1: "txRoundRpc plainHelpers (resolved nodeEmpty) intentNonceOnly = ([], Some intent1)"
    using T [where p = intentNonceOnly and w = "resolved nodeEmpty",
        THEN conjunct2, THEN conjunct1, THEN mp, OF u1, THEN conjunct1, THEN mp, OF l1]
    unfolding p1 .
  have n2: "nonce intent1 = None" and g2: "gasPrice intent1 = None"
    by (simp_all add: intent1_def)
  have u2: "nonce intent1 = None \<or> gasPrice intent1 = None" using n2 by (rule disjI1)
  have l2: "rpc_getTransaction nodeDown (hash intent1) = Rejected"
    by (simp add: nodeDown_def)
  have r2: "txRoundRpc plainHelpers nodeDown intent1 = ([], None)"
    using T [where p = intent1 and w = nodeDown,
        THEN conjunct2, THEN conjunct1, THEN mp, OF u2, THEN conjunct2, THEN mp, OF l2] .
  have l3: "rpc_getTransaction (resolved nodeEmpty) (hash intent1) = Resolved None"
    by (simp add: resolved_def nodeEmpty_def)
  have r3: "txRoundRpc plainHelpers (resolved nodeEmpty) intent1 = ([], Some intent1)"
    using T [where p = intent1 and w = "resolved nodeEmpty",
        THEN conjunct2, THEN conjunct2, THEN conjunct1, THEN mp, OF conjI, OF n2 conjI, OF g2 l3] .
  have n: "nonce tracking1 = Some 5" and g: "gasPrice tracking1 = Some ''10''"
    by (simp_all add: tracking1_def)
  have known: "nonce tracking1 = Some 5 \<and> gasPrice tracking1 = Some ''10''"
    using n g ..
  have b4: "rpc_getBlockLatest nodeDown = Rejected" by (simp add: nodeDown_def)
  note r4 = T [where p = tracking1 and w = nodeDown and n = 5 and g = "''10''",
      THEN conjunct2, THEN conjunct2, THEN conjunct2, THEN conjunct1, THEN mp, OF known,
      THEN conjunct1, THEN mp, OF b4]
  have b5: "rpc_getBlockLatest (resolved nodePending) = Resolved (getBlockLatest nodePending)"
    by (simp add: resolved_def)
  have s5: "rpc_getTransactionReceipt (resolved nodePending) (hash tracking1) = Resolved None"
    by (simp add: resolved_def nodePending_def)
  have c5: "replacementTransaction plainHelpers (sender tracking1) (hash tracking1) (data tracking1)
      5 ''10'' (transactions (getBlockLatest nodePending)) = None"
    by (simp add: nodePending_def replacementTransaction_def)
  note r5 = T [where p = tracking1 and w = "resolved nodePending" and n = 5 and g = "''10''",
      THEN conjunct2, THEN conjunct2, THEN conjunct2, THEN conjunct1, THEN mp, OF known,
      THEN conjunct2, THEN spec, THEN mp, OF b5, THEN conjunct1, THEN mp, OF c5]
  have b6: "rpc_getBlockLatest (resolved nodeSpeedUpSeen) = Resolved (getBlockLatest nodeSpeedUpSeen)"
    by (simp add: resolved_def)
  have c6: "replacementTransaction plainHelpers (sender tracking1) (hash tracking1) (data tracking1)
      5 ''10'' (transactions (getBlockLatest nodeSpeedUpSeen)) = Some tx2"
    by (simp add: tracking1_def nodeSpeedUpSeen_def candidate_tx2)
  have l6: "rpc_getTransactionReceipt (resolved nodeSpeedUpSeen) (tx_hash tx2) = Resolved None"
    by (simp add: resolved_def nodeSpeedUpSeen_def)
  have p6: "\<lparr>sender = sender tracking1, hash = tx_hash tx2, data = tx_input tx2,
              nonce = Some 5, gasPrice = Some (tx_gasPrice tx2)\<rparr> = tracking2"
    by (simp add: tracking1_def tracking2_def tx2_def)
  have r6: "snd (txRoundRpc plainHelpers (resolved nodeSpeedUpSeen) tracking1) = Some tracking2 \<and>
      callbacks (fst (txRoundRpc plainHelpers (resolved nodeSpeedUpSeen) tracking1)) = []"
    using T [where p = tracking1 and w = "resolved nodeSpeedUpSeen" and n = 5 and g = "''10''",
      THEN conjunct2, THEN conjunct2, THEN conjunct2, THEN conjunct1, THEN mp, OF known,
      THEN conjunct2, THEN spec, THEN mp, OF b6, THEN conjunct2, THEN spec, THEN mp, OF c6,
      THEN conjunct1, THEN mp, OF l6]
    unfolding p6 .
  have b7: "rpc_getBlockLatest nodeReceiptsDown = Resolved \<lparr>block_number = 7, transactions = [tx2]\<rparr>"
    by (simp add: nodeReceiptsDown_def)
  have c7: "replacementTransaction plainHelpers (sender tracking1) (hash tracking1) (data tracking1)
      5 ''10'' (transactions \<lparr>block_number = 7, transactions = [tx2]\<rparr>) = Some tx2"
    by (simp add: tracking1_def candidate_tx2)
  have l7: "rpc_getTransactionReceipt nodeReceiptsDown (tx_hash tx2) = Rejected"
    by (simp add: nodeReceiptsDown_def)
  note r7 = T [where p = tracking1 and w = nodeReceiptsDown and n = 5 and g = "''10''",
      THEN conjunct2, THEN conjunct2, THEN conjunct2, THEN conjunct1, THEN mp, OF known,
      THEN conjunct2, THEN spec, THEN mp, OF b7, THEN conjunct2, THEN spec, THEN mp, OF c7,
      THEN conjunct2, THEN conjunct1, THEN mp, OF l7]
  have b8: "rpc_getBlockLatest (resolved nodeSpeedUpMined) = Resolved (getBlockLatest nodeSpeedUpMined)"
    by (simp add: resolved_def)
  have c8: "replacementTransaction plainHelpers (sender tracking1) (hash tracking1) (data tracking1)
      5 ''10'' (transactions (getBlockLatest nodeSpeedUpMined)) = Some tx2"
    by (simp add: tracking1_def nodeSpeedUpMined_def candidate_tx2)
  have l8: "rpc_getTransactionReceipt (resolved nodeSpeedUpMined) (tx_hash tx2) = Resolved (Some receipt2)"
    by (simp add: resolved_def nodeSpeedUpMined_def tx2_def)
  note r8 = T [where p = tracking1 and w = "resolved nodeSpeedUpMined" and n = 5 and g = "''10''",
      THEN conjunct2, THEN conjunct2, THEN conjunct2, THEN conjunct1, THEN mp, OF known,
      THEN conjunct2, THEN spec, THEN mp, OF b8, THEN conjunct2, THEN spec, THEN mp, OF c8,
      THEN conjunct2, THEN conjunct2, THEN spec, THEN mp, OF l8]
  note once = T [where p = intent1
      and ws = "[resolved nodeEmpty, resolved nodePending, nodeReceiptsDown, resolved nodeSpeedUpMined]",
      THEN conjunct2, THEN conjunct2, THEN conjunct2, THEN conjunct2, THEN conjunct2]
  from u1 l1 r1 u2 l2 r2 n2 g2 l3 r3 n g b4 r4 [THEN conjunct1] r4 [THEN conjunct2]
    s5 r5 [THEN conjunct1] r5 [THEN conjunct2] l6 r6 [THEN conjunct1] r6 [THEN conjunct2]
    l7 r7 [THEN conjunct1] r7 [THEN conjunct2] l8 r8 [THEN conjunct1] r8 [THEN conjunct2] once
  show ?thesis by (intro conjI)
qed

text \<open>
  Claim C9. The fee conjunct compares the two fees as integers of any size: with
  \<^verbatim>\<open>toBN\<close> reading a decimal string as the number it denotes, a transaction with fee
  \<open>a\<close> that satisfies the other four conjuncts is selected against the tracked fee
  \<open>b\<close> if and only if \<open>b < a\<close>, and with \<open>a \<le> b\<close> it is never selected.
\<close>

theorem fee_comparison_exact:
  assumes "\<forall>k. toBN h (decimal k) = int k"
  shows "(replacementTransaction h s x d n (decimal b) [u\<lparr>tx_gasPrice := decimal a\<rparr>]
            = Some (u\<lparr>tx_gasPrice := decimal a\<rparr>) \<longleftrightarrow>
          sameAddress h (tx_from u) s \<and> tx_nonce u = n \<and> \<not> sameString h (tx_hash u) x \<and>
          sameString h (tx_input u) d \<and> b < a) \<and>
         (a \<le> b \<longrightarrow>
            replacementTransaction h s x d n (decimal b) txs \<noteq> Some (u\<lparr>tx_gasPrice := decimal a\<rparr>))"
proof
  show "replacementTransaction h s x d n (decimal b) [u\<lparr>tx_gasPrice := decimal a\<rparr>]
            = Some (u\<lparr>tx_gasPrice := decimal a\<rparr>) \<longleftrightarrow>
          sameAddress h (tx_from u) s \<and> tx_nonce u = n \<and> \<not> sameString h (tx_hash u) x \<and>
          sameString h (tx_input u) d \<and> b < a"
    using assms by (simp add: replacementTransaction_def)
next
  show "a \<le> b \<longrightarrow>
      replacementTransaction h s x d n (decimal b) txs \<noteq> Some (u\<lparr>tx_gasPrice := decimal a\<rparr>)"
  proof
    assume le: "a \<le> b"
    show "replacementTransaction h s x d n (decimal b) txs \<noteq> Some (u\<lparr>tx_gasPrice := decimal a\<rparr>)"
    proof
      assume "replacementTransaction h s x d n (decimal b) txs = Some (u\<lparr>tx_gasPrice := decimal a\<rparr>)"
      then have "toBN h (decimal b) < toBN h (tx_gasPrice (u\<lparr>tx_gasPrice := decimal a\<rparr>))"
        by (rule replacementTransaction_Some)
      with assms le show False by (simp)
    qed
  qed
qed

theorem fee_comparison_exact_witness:
  "(\<forall>k. toBN plainHelpers (decimal k) = int k) \<and>
   replacementTransaction plainHelpers ''0xA'' ''h1'' ''0xd'' 5 ''9007199254740992''
     [tx2\<lparr>tx_gasPrice := ''9007199254740993''\<rparr>] = Some (tx2\<lparr>tx_gasPrice := ''9007199254740993''\<rparr>) \<and>
   (9007199254740992 :: nat) < 9007199254740993 \<and>
   (9007199254740992 :: nat) \<le> 9007199254740992 \<and>
   replacementTransaction plainHelpers ''0xA'' ''h1'' ''0xd'' 5 ''9007199254740992''
     [tx2\<lparr>tx_gasPrice := ''9007199254740992''\<rparr>] \<noteq> Some (tx2\<lparr>tx_gasPrice := ''9007199254740992''\<rparr>)"
proof -
  have exact: "\<forall>k. toBN plainHelpers (decimal k) = int k"
    by (simp add: decimalBN_decimal)
  have lo: "decimal 9007199254740992 = ''9007199254740992''"
    by (simp add: decimal.simps digit_char_def)
  have hi: "decimal 9007199254740993 = ''9007199254740993''"
    by (simp add: decimal.simps digit_char_def)
  have four: "sameAddress plainHelpers (tx_from tx2) ''0xA'' \<and> tx_nonce tx2 = 5 \<and>
      \<not> sameString plainHelpers (tx_hash tx2) ''h1'' \<and> sameString plainHelpers (tx_input tx2) ''0xd''"
    by (simp add: tx2_def)
  show ?thesis
    using fee_comparison_exact [OF exact, where s = "''0xA''" and x = "''h1''" and d = "''0xd''"
            and n = 5 and b = 9007199254740992 and u = tx2 and a = 9007199254740993]
          fee_comparison_exact [OF exact, where s = "''0xA''" and x = "''h1''" and d = "''0xd''"
            and n = 5 and b = 9007199254740992 and u = tx2 and a = 9007199254740992
            and txs = "[tx2\<lparr>tx_gasPrice := ''9007199254740992''\<rparr>]"]
          exact four
    unfolding lo hi by simp
qed

text \<open>
  Claim C10. A round in which nonce or gasPrice is undefined, also when the caller
  supplied the other one, only looks the tracked hash up: when the transaction is found,
  both nonce and gasPrice of the recursive call are the transaction's and a supplied
  value is discarded; when it is not found, both are unset. Such a round does not
  depend on the receipts or on the latest block of the node: it makes no receipt check,
  no block scan and no search for a replacement.
\<close>

theorem discovery_round_overwrites_and_returns:
  "nonce p = None \<or> gasPrice p = None \<longrightarrow>
     (\<forall>t. getTransaction w (hash p) = Some t \<longrightarrow>
        txRound h w p =
          ([Info_transaction t],
           Some \<lparr>sender = sender p, hash = hash p, data = data p,
                 nonce = Some (tx_nonce t), gasPrice = Some (tx_gasPrice t)\<rparr>)) \<and>
     (getTransaction w (hash p) = None \<longrightarrow>
        txRound h w p =
          ([], Some \<lparr>sender = sender p, hash = hash p, data = data p,
                     nonce = None, gasPrice = None\<rparr>)) \<and>
     txRound h (w\<lparr>getTransactionReceipt := receipts, getBlockLatest := block\<rparr>) p = txRound h w p"
proof
  assume u: "nonce p = None \<or> gasPrice p = None"
  have found: "\<forall>t. getTransaction w (hash p) = Some t \<longrightarrow>
        txRound h w p =
          ([Info_transaction t],
           Some \<lparr>sender = sender p, hash = hash p, data = data p,
                 nonce = Some (tx_nonce t), gasPrice = Some (tx_gasPrice t)\<rparr>)"
    using txRound_indexed [OF u, of w _ h] by blast
  have absent: "getTransaction w (hash p) = None \<longrightarrow>
        txRound h w p =
          ([], Some \<lparr>sender = sender p, hash = hash p, data = data p,
                     nonce = None, gasPrice = None\<rparr>)"
    using txRound_not_indexed [OF u, of w h] by blast
  have same: "txRound h (w\<lparr>getTransactionReceipt := receipts, getBlockLatest := block\<rparr>) p = txRound h w p"
    using u by (auto simp: txRound_def)
  from found absent same
  show "(\<forall>t. getTransaction w (hash p) = Some t \<longrightarrow>
        txRound h w p =
          ([Info_transaction t],
           Some \<lparr>sender = sender p, hash = hash p, data = data p,
                 nonce = Some (tx_nonce t), gasPrice = Some (tx_gasPrice t)\<rparr>)) \<and>
     (getTransaction w (hash p) = None \<longrightarrow>
        txRound h w p =
          ([], Some \<lparr>sender = sender p, hash = hash p, data = data p,
                     nonce = None, gasPrice = None\<rparr>)) \<and>
     txRound h (w\<lparr>getTransactionReceipt := receipts, getBlockLatest := block\<rparr>) p = txRound h w p"
    by (intro conjI)
qed

theorem discovery_round_overwrites_and_returns_witness:
  "(nonce intentNonceOnly = None \<or> gasPrice intentNonceOnly = None) \<and>
   nonce intentNonceOnly = Some 9 \<and>
   getTransaction nodePending (hash intentNonceOnly) = Some tx1 \<and>
   txRound plainHelpers nodePending intentNonceOnly = ([Info_transaction tx1], Some tracking1) \<and>
   nonce tracking1 = Some 5 \<and>
   (nonce intentFeeOnly = None \<or> gasPrice intentFeeOnly = None) \<and>
   gasPrice intentFeeOnly = Some ''99'' \<and>
   getTransaction nodeSpeedUpMined (hash intentFeeOnly) = Some tx1 \<and>
   txRound plainHelpers nodeSpeedUpMined intentFeeOnly = ([Info_transaction tx1], Some tracking1) \<and>
   gasPrice tracking1 = Some ''10'' \<and>
   getTransaction nodeEmpty (hash intentNonceOnly) = None \<and>
   txRound plainHelpers nodeEmpty intentNonceOnly = ([], Some intent1) \<and>
   txRound plainHelpers
     (nodePending\<lparr>getTransactionReceipt := getTransactionReceipt nodeSpeedUpMined,
                  getBlockLatest := getBlockLatest nodeSpeedUpMined\<rparr>) intentNonceOnly =
     txRound plainHelpers nodePending intentNonceOnly"
proof -
  note N = discovery_round_overwrites_and_returns
    [where p = intentNonceOnly and w = nodePending and h = plainHelpers
       and receipts = "getTransactionReceipt nodeSpeedUpMined"
       and block = "getBlockLatest nodeSpeedUpMined"]
  note F = discovery_round_overwrites_and_returns
    [where p = intentFeeOnly and w = nodeSpeedUpMined and h = plainHelpers
       and receipts = "getTransactionReceipt nodeSpeedUpMined"
       and block = "getBlockLatest nodeSpeedUpMined"]
  note E = discovery_round_overwrites_and_returns
    [where p = intentNonceOnly and w = nodeEmpty and h = plainHelpers
       and receipts = "getTransactionReceipt nodeSpeedUpMined"
       and block = "getBlockLatest nodeSpeedUpMined"]
  have un: "nonce intentNonceOnly = None \<or> gasPrice intentNonceOnly = None"
    by (simp add: intentNonceOnly_def)
  have uf: "nonce intentFeeOnly = None \<or> gasPrice intentFeeOnly = None"
    by (simp add: intentFeeOnly_def)
  have n9: "nonce intentNonceOnly = Some 9" by (simp add: intentNonceOnly_def)
  have f99: "gasPrice intentFeeOnly = Some ''99''" by (simp add: intentFeeOnly_def)
  have gn: "getTransaction nodePending (hash intentNonceOnly) = Some tx1"
    by (simp add: nodePending_def intentNonceOnly_def)
  have gf: "getTransaction nodeSpeedUpMined (hash intentFeeOnly) = Some tx1"
    by (simp add: nodeSpeedUpMined_def intentFeeOnly_def)
  have ge: "getTransaction nodeEmpty (hash intentNonceOnly) = None"
    by (simp add: nodeEmpty_def)
  have pn: "\<lparr>sender = sender intentNonceOnly, hash = hash intentNonceOnly, data = data intentNonceOnly,
              nonce = Some (tx_nonce tx1), gasPrice = Some (tx_gasPrice tx1)\<rparr> = tracking1"
    by (simp add: intentNonceOnly_def tracking1_def tx1_def)
  have pf: "\<lparr>sender = sender intentFeeOnly, hash = hash intentFeeOnly, data = data intentFeeOnly,
              nonce = Some (tx_nonce tx1), gasPrice = Some (tx_gasPrice tx1)\<rparr> = tracking1"
    by (simp add: intentFeeOnly_def tracking1_def tx1_def)
  have pe: "\<lparr>sender = sender intentNonceOnly, hash = hash intentNonceOnly, data = data intentNonceOnly,
              nonce = None, gasPrice = None\<rparr> = intent1"
    by (simp add: intentNonceOnly_def intent1_def)
  have rn: "txRound plainHelpers nodePending intentNonceOnly = ([Info_transaction tx1], Some tracking1)"
    using N [THEN mp, OF un, THEN conjunct1, THEN spec, THEN mp, OF gn] unfolding pn .
  have rf: "txRound plainHelpers nodeSpeedUpMined intentFeeOnly = ([Info_transaction tx1], Some tracking1)"
    using F [THEN mp, OF uf, THEN conjunct1, THEN spec, THEN mp, OF gf] unfolding pf .
  have re: "txRound plainHelpers nodeEmpty intentNonceOnly = ([], Some intent1)"
    using E [THEN mp, OF un, THEN conjunct2, THEN conjunct1, THEN mp, OF ge] unfolding pe .
  note same = N [THEN mp, OF un, THEN conjunct2, THEN conjunct2]
  have t5: "nonce tracking1 = Some 5" and t10: "gasPrice tracking1 = Some ''10''"
    by (simp_all add: tracking1_def)
  from un n9 gn rn t5 uf f99 gf rf t10 ge re same show ?thesis by (intro conjI)
qed

end
